theory Spec2Isabelle
  imports Complex_Main "HOL-Library.Sublist" "HOL-Library.Log_Nat"
begin

section \<open>JavaScript numbers, dates and strings\<close>

text \<open>
  A JavaScript number is an IEEE 754 double: a rational number that a double represents
  exactly, \<open>NaN\<close>, or an infinity. \<open>Num 0\<close> stands for both zeros; the program never
  divides by one. A field that may be absent (\<open>undefined\<close>) is an option.
\<close>

datatype js_number = Num rat | NaN | PosInf | NegInf

text \<open>
  Rounding of an exact value to the nearest double, ties to the even significand:
  \<open>ilog2 a\<close> is the binary exponent of a positive \<open>a\<close>, the spacing of the doubles around
  \<open>a\<close> is \<open>2\<close> to the power \<open>ilog2 a - 52\<close> and never below the subnormal spacing
  \<open>2\<close> to the \<open>-1074\<close>, and a result of \<open>2\<close> to the \<open>1024\<close> or more is an infinity.
\<close>

definition pow2 :: "int \<Rightarrow> rat" where
  "pow2 k = (if 0 \<le> k then 2 ^ nat k else 1 / 2 ^ nat (- k))"

definition round_half_even :: "rat \<Rightarrow> int" where
  "round_half_even y =
     (let f = \<lfloor>y\<rfloor>; r = y - of_int f
      in if r < 1 / 2 then f
         else if 1 / 2 < r then f + 1
         else if even f then f else f + 1)"

definition ilog2 :: "rat \<Rightarrow> int" where
  "ilog2 a =
     (if 1 \<le> a then bitlen \<lfloor>a\<rfloor> - 1
      else (let k = bitlen \<lfloor>1 / a\<rfloor> - 1
            in if a = pow2 (- k) then - k else - k - 1))"

definition fl :: "rat \<Rightarrow> js_number" where
  "fl x =
     (if x = 0 then Num 0
      else
        (let a = \<bar>x\<bar>;
             q = max (ilog2 a - 52) (- 1074);
             r = of_int (round_half_even (a / pow2 q)) * pow2 q
         in if pow2 1024 \<le> r then (if 0 < x then PosInf else NegInf)
            else Num (if 0 < x then r else - r)))"

text \<open>The operators \<open>*\<close>, \<open>+\<close> and \<open><\<close> on numbers: the exact result, rounded.\<close>

definition js_mult :: "js_number \<Rightarrow> js_number \<Rightarrow> js_number" where
  "js_mult a b =
     (case (a, b) of
        (Num x, Num y) \<Rightarrow> fl (x * y)
      | (NaN, _) \<Rightarrow> NaN
      | (_, NaN) \<Rightarrow> NaN
      | (Num x, PosInf) \<Rightarrow> (if x = 0 then NaN else if 0 < x then PosInf else NegInf)
      | (Num x, NegInf) \<Rightarrow> (if x = 0 then NaN else if 0 < x then NegInf else PosInf)
      | (PosInf, Num y) \<Rightarrow> (if y = 0 then NaN else if 0 < y then PosInf else NegInf)
      | (NegInf, Num y) \<Rightarrow> (if y = 0 then NaN else if 0 < y then NegInf else PosInf)
      | (PosInf, PosInf) \<Rightarrow> PosInf
      | (NegInf, NegInf) \<Rightarrow> PosInf
      | (PosInf, NegInf) \<Rightarrow> NegInf
      | (NegInf, PosInf) \<Rightarrow> NegInf)"

definition js_add :: "js_number \<Rightarrow> js_number \<Rightarrow> js_number" where
  "js_add a b =
     (case (a, b) of
        (Num x, Num y) \<Rightarrow> fl (x + y)
      | (NaN, _) \<Rightarrow> NaN
      | (_, NaN) \<Rightarrow> NaN
      | (PosInf, NegInf) \<Rightarrow> NaN
      | (NegInf, PosInf) \<Rightarrow> NaN
      | (PosInf, _) \<Rightarrow> PosInf
      | (_, PosInf) \<Rightarrow> PosInf
      | (NegInf, _) \<Rightarrow> NegInf
      | (_, NegInf) \<Rightarrow> NegInf)"

definition js_less :: "js_number \<Rightarrow> js_number \<Rightarrow> bool" where
  "js_less a b =
     (case (a, b) of
        (Num x, Num y) \<Rightarrow> x < y
      | (NaN, _) \<Rightarrow> False
      | (_, NaN) \<Rightarrow> False
      | (NegInf, NegInf) \<Rightarrow> False
      | (NegInf, _) \<Rightarrow> True
      | (PosInf, _) \<Rightarrow> False
      | (Num x, PosInf) \<Rightarrow> True
      | (Num x, NegInf) \<Rightarrow> False)"

text \<open>
  \<open>new Date(v)\<close> for a number \<open>v\<close> of milliseconds: the time value is \<open>v\<close> cut to a whole
  number, and the date is invalid when \<open>v\<close> is not finite or beyond 8.64e15 in size.
\<close>

datatype js_date = InvalidDate | Date int

definition new_Date :: "js_number \<Rightarrow> js_date" where
  "new_Date v =
     (case v of
        Num t \<Rightarrow>
          if \<bar>t\<bar> \<le> 8640000000000000
          then Date (if 0 \<le> t then \<lfloor>t\<rfloor> else - \<lfloor>- t\<rfloor>)
          else InvalidDate
      | _ \<Rightarrow> InvalidDate)"

text \<open>
  A string is the list of its code units, each below 256 (Latin-1); the white space of
  \<open>Number\<close>, \<open>parseInt\<close> and \<open>trim\<close> in that range is the six ASCII characters and the
  no-break space.
\<close>

definition is_space :: "char \<Rightarrow> bool" where
  "is_space c = (c \<in> set [CHR '' '', CHR 0x09, CHR 0x0A, CHR 0x0B, CHR 0x0C, CHR 0x0D, CHR 0xA0])"

section \<open>Values shared by the cookie manager and the plugin\<close>

text \<open>
  A cookie of the cookie file. Its \<open>expirationDate\<close> is a number of seconds since the
  epoch, a double as every number that \<open>JSON.parse\<close> gives.
\<close>

record cookie =
  name :: string
  cvalue :: string
  domain :: "string option"
  path :: "string option"
  expirationDate :: "rat option"
  httpOnly :: "bool option"
  secure :: "bool option"
  sameSite :: "string option"
  hostOnly :: "bool option"
  session :: "bool option"

text \<open>
  The argument of \<open>loadCookies\<close> and \<open>validateCookies\<close> is any JavaScript value; the
  shapes the code distinguishes are an array of cookies, a string, and the values that
  are neither (\<open>null\<close>, \<open>undefined\<close>, and \<open>JOther\<close> for an object, a number or a boolean).
\<close>

datatype js_value = JUndefined | JNull | JString string | JArray "cookie list" | JOther

section \<open>cookieManager.js: the manager and validateCookies\<close>

datatype callback = Returns | Throws string

record manager =
  cookiesPath :: string
  refreshInterval :: rat
  refreshBeforeExpiry :: rat
  autoRefresh :: bool
  headless :: bool
  refreshTimer :: "nat option"
  onCookiesUpdated :: "callback option"
  onRefreshError :: "callback option"
  puppeteer :: bool

record validation =
  valid :: bool
  expired :: bool
  expiringSoon :: bool
  nearestExpiry :: "js_date option"
  message :: string

text \<open>
  The body of the \<open>for (const cookie of cookies)\<close> loop of \<open>validateCookies\<close>, on the
  three locals \<open>(hasExpired, expiringSoon, nearestExpiry)\<close>; \<open>None\<close> is the initial
  \<open>Infinity\<close>. The guard \<open>if (cookie.expirationDate)\<close> is JavaScript truthiness: it
  skips an absent date and also the number 0. \<open>now\<close> is a whole number and the
  threshold a double, so the two comparisons are those of the code.
\<close>

definition scan_cookie ::
    "rat \<Rightarrow> js_number \<Rightarrow> cookie \<Rightarrow> bool \<times> bool \<times> rat option \<Rightarrow> bool \<times> bool \<times> rat option" where
  "scan_cookie now expirySoonThreshold c s =
     (case s of (hasExpired, soon, nearest) \<Rightarrow>
        (case expirationDate c of
           None \<Rightarrow> s
         | Some d \<Rightarrow>
             if d = 0 then s
             else
               let hasExpired' = (if d < now then True else hasExpired);
                   soon' = (if d < now then soon
                            else if js_less (Num d) expirySoonThreshold then True else soon);
                   nearest' = (case nearest of
                                 None \<Rightarrow> Some d
                               | Some n \<Rightarrow> if d < n then Some d else Some n)
               in (hasExpired', soon', nearest')))"

text \<open>
  The two locals computed before the loop. \<open>now_ms\<close> is the reading of \<open>Date.now()\<close>, a
  whole number of milliseconds inside the range of \<open>Date\<close>, for which the floor of the
  double quotient by 1000 is the floor of the exact one. The threshold is the double sum
  of \<open>now\<close> and the double quotient \<open>refreshBeforeExpiry / 1000\<close>.
\<close>

definition now_seconds :: "int \<Rightarrow> rat" where
  "now_seconds now_ms = of_int (now_ms div 1000)"

definition expirySoonThreshold :: "manager \<Rightarrow> int \<Rightarrow> js_number" where
  "expirySoonThreshold m now_ms =
     js_add (Num (now_seconds now_ms)) (fl (refreshBeforeExpiry m / 1000))"

text \<open>\<open>new Date(nearestExpiry * 1000)\<close>.\<close>

definition expiry_date :: "rat \<Rightarrow> js_date" where
  "expiry_date n = new_Date (js_mult (Num n) (Num 1000))"

text \<open>
  \<open>validateCookies\<close>. \<open>toISOString\<close> renders the time value of a valid \<open>Date\<close>; on an
  invalid one \<open>Date.prototype.toISOString\<close> raises a \<open>RangeError\<close>, which leaves
  \<open>validateCookies\<close> (\<open>Inl\<close> with its message). Only the \<open>expiring soon\<close> message
  calls it.
\<close>

definition validateCookies ::
    "(int \<Rightarrow> string) \<Rightarrow> manager \<Rightarrow> int \<Rightarrow> js_value \<Rightarrow> string + validation" where
  "validateCookies toISOString m now_ms cookies =
     (case cookies of
        JArray (c # cs) \<Rightarrow>
          (case fold (scan_cookie (now_seconds now_ms) (expirySoonThreshold m now_ms)) (c # cs)
                  (False, False, None) of
             (hasExpired, soon, nearest) \<Rightarrow>
               (let expiryDate = map_option expiry_date nearest
                in (case (if hasExpired then Inr ''Some cookies have expired''
                          else if soon then
                            (case expiryDate of
                               None \<Rightarrow> Inr ''Cookies expiring soon (before undefined)''
                             | Some InvalidDate \<Rightarrow> Inl ''Invalid time value''
                             | Some (Date t) \<Rightarrow>
                                 Inr (''Cookies expiring soon (before '' @ toISOString t @ '')''))
                          else Inr ''All cookies are valid'') of
                      Inl e \<Rightarrow> Inl e
                    | Inr text \<Rightarrow>
                        Inr \<lparr> valid = \<not> hasExpired,
                              expired = hasExpired,
                              expiringSoon = soon,
                              nearestExpiry = expiryDate,
                              message = text \<rparr>)))
      | _ \<Rightarrow> Inr \<lparr> valid = False, expired = False, expiringSoon = False,
                    nearestExpiry = None, message = ''No cookies provided'' \<rparr>)"

text \<open>The kinds of cookie the loop tells apart, and a date that makes a valid \<open>Date\<close>.\<close>

definition has_expiry :: "cookie \<Rightarrow> bool" where
  "has_expiry c = (case expirationDate c of None \<Rightarrow> False | Some d \<Rightarrow> d \<noteq> 0)"

definition is_expired :: "rat \<Rightarrow> cookie \<Rightarrow> bool" where
  "is_expired now c = (case expirationDate c of None \<Rightarrow> False | Some d \<Rightarrow> d < now)"



definition plain_cookie :: "string \<Rightarrow> rat option \<Rightarrow> cookie" where
  "plain_cookie n e =
     \<lparr> name = n, cvalue = ''v'', domain = Some ''.youtube.com'', path = Some ''/'',
       expirationDate = e, httpOnly = None, secure = None, sameSite = None,
       hostOnly = None, session = None \<rparr>"

definition default_manager :: manager where
  "default_manager =
     \<lparr> cookiesPath = ''cookies.json'', refreshInterval = 86400000,
       refreshBeforeExpiry = 3600000, autoRefresh = True, headless = True,
       refreshTimer = None, onCookiesUpdated = None, onRefreshError = None,
       puppeteer = False \<rparr>"

section \<open>cookieManager.js: files, callbacks and the refresh\<close>

text \<open>
  The file system as the manager sees it: a file holds text that \<open>JSON.parse\<close> turns into
  a value (\<open>Json v\<close>) or rejects (\<open>Garbage\<close>); \<open>fs.readFile\<close> fails on the paths of
  \<open>unreadable\<close>, \<open>fs.writeFile\<close> on those of \<open>unwritable\<close>. \<open>calls\<close> records, in
  order, the calls the properties below speak about: each entry of \<open>refreshCookies\<close> and
  of \<open>saveCookies\<close>, and each invocation of one of the two registered callbacks.
\<close>

datatype file_content = Json js_value | Garbage

datatype event =
    RefreshCookies
  | SaveCookies string
  | OnRefreshError string
  | OnCookiesUpdated "cookie list"

record world =
  files :: "string \<Rightarrow> file_content option"
  unreadable :: "string \<Rightarrow> bool"
  unwritable :: "string \<Rightarrow> bool"
  calls :: "event list"

text \<open>
  \<open>loadCookies\<close>: an array is returned as it is; a string becomes the manager's
  \<open>cookiesPath\<close>; then the file at \<open>cookiesPath\<close> is read. A missing file, a failed read,
  text that does not parse, and a parsed \<open>null\<close> (whose \<open>.length\<close> raises inside the
  \<open>try\<close>) all give the empty array. The result is the value and the manager after the call.
\<close>

definition loadCookies :: "manager \<Rightarrow> world \<Rightarrow> js_value \<Rightarrow> js_value \<times> manager" where
  "loadCookies m w source =
     (case source of
        JArray cs \<Rightarrow> (JArray cs, m)
      | _ \<Rightarrow>
          (let m1 = (case source of JString p \<Rightarrow> m\<lparr>cookiesPath := p\<rparr> | _ \<Rightarrow> m)
           in (case files w (cookiesPath m1) of
                 None \<Rightarrow> (JArray [], m1)
               | Some content \<Rightarrow>
                   if unreadable w (cookiesPath m1) then (JArray [], m1)
                   else (case content of
                           Garbage \<Rightarrow> (JArray [], m1)
                         | Json JNull \<Rightarrow> (JArray [], m1)
                         | Json JUndefined \<Rightarrow> (JArray [], m1)
                         | Json v \<Rightarrow> (v, m1)))))"

text \<open>\<open>saveCookies\<close>: writes the array to the file at \<open>cookiesPath\<close>; a failed write gives \<open>false\<close>.\<close>

definition saveCookies :: "manager \<Rightarrow> world \<Rightarrow> cookie list \<Rightarrow> bool \<times> world" where
  "saveCookies m w cookies =
     (let w1 = w\<lparr>calls := calls w @ [SaveCookies (cookiesPath m)]\<rparr>
      in if unwritable w (cookiesPath m) then (False, w1)
         else (True, w1\<lparr>files := (files w)(cookiesPath m \<mapsto> Json (JArray cookies))\<rparr>))"

text \<open>
  What the browser automation does during one refresh, step by step: the error of a step
  that rejects, the successive results of the login probe \<open>page.evaluate\<close>, the number of
  rounds for which the five-minute condition of the waiting loop holds, and the cookies
  that \<open>page.cookies()\<close> returns. \<open>installed\<close> tells whether \<open>require('puppeteer')\<close> succeeds.
\<close>

datatype puppeteer_sameSite = Strict | Lax | NoneSite

record puppeteer_cookie =
  p_name :: string
  p_value :: string
  p_domain :: string
  p_path :: string
  p_expires :: rat
  p_httpOnly :: bool
  p_secure :: bool
  p_sameSite :: "puppeteer_sameSite option"

record browser =
  installed :: bool
  launch_error :: "string option"
  newPage_error :: "string option"
  setUserAgent_error :: "string option"
  goto_error :: "string option"
  evaluate :: "nat \<Rightarrow> string + bool"
  login_rounds :: nat
  page_cookies :: "string + puppeteer_cookie list"
  close_error :: "string option"

definition convertSameSiteToString :: "puppeteer_sameSite option \<Rightarrow> string" where
  "convertSameSiteToString s =
     (case s of
        Some NoneSite \<Rightarrow> ''no_restriction''
      | Some Lax \<Rightarrow> ''lax''
      | Some Strict \<Rightarrow> ''strict''
      | None \<Rightarrow> ''unspecified'')"

text \<open>The conversion of one captured cookie to the format of the cookie file.\<close>

definition formatCookie :: "puppeteer_cookie \<Rightarrow> cookie" where
  "formatCookie c =
     \<lparr> name = p_name c,
       cvalue = p_value c,
       domain = Some (p_domain c),
       path = Some (p_path c),
       expirationDate = (if p_expires c \<noteq> 0 \<and> p_expires c > 0 then Some (p_expires c) else None),
       httpOnly = Some (p_httpOnly c),
       secure = Some (p_secure c),
       sameSite = Some (convertSameSiteToString (p_sameSite c)),
       hostOnly = Some (\<not> prefix ''.'' (p_domain c)),
       session = Some (p_expires c = 0 \<or> p_expires c = - 1) \<rparr>"

text \<open>
  \<open>if (this.onRefreshError) this.onRefreshError(error)\<close>: \<open>Inl\<close> when the callback itself
  raises. \<open>invoke_updated\<close> is the same for \<open>onCookiesUpdated\<close>.
\<close>

definition invoke_error :: "manager \<Rightarrow> world \<Rightarrow> string \<Rightarrow> (string + unit) \<times> world" where
  "invoke_error m w e =
     (case onRefreshError m of
        None \<Rightarrow> (Inr (), w)
      | Some cb \<Rightarrow>
          (let w1 = w\<lparr>calls := calls w @ [OnRefreshError e]\<rparr>
           in (case cb of Returns \<Rightarrow> (Inr (), w1) | Throws x \<Rightarrow> (Inl x, w1))))"

definition invoke_updated :: "manager \<Rightarrow> world \<Rightarrow> cookie list \<Rightarrow> (string + unit) \<times> world" where
  "invoke_updated m w cs =
     (case onCookiesUpdated m of
        None \<Rightarrow> (Inr (), w)
      | Some cb \<Rightarrow>
          (let w1 = w\<lparr>calls := calls w @ [OnCookiesUpdated cs]\<rparr>
           in (case cb of Returns \<Rightarrow> (Inr (), w1) | Throws x \<Rightarrow> (Inl x, w1))))"

text \<open>
  The loop that waits for a manual login: one probe per round, left when the probe
  succeeds or raises; \<open>k\<close> counts the probes made so far. The loop is bounded by the
  clock, whose rounds the browser record fixes.
\<close>

fun wait_for_login :: "(nat \<Rightarrow> string + bool) \<Rightarrow> nat \<Rightarrow> nat \<Rightarrow> string option" where
  "wait_for_login ev k 0 = None"
| "wait_for_login ev k (Suc n) =
     (case ev k of
        Inl e \<Rightarrow> Some e
      | Inr True \<Rightarrow> None
      | Inr False \<Rightarrow> wait_for_login ev (Suc k) n)"

text \<open>
  The inner \<open>try\<close> block of \<open>refreshCookies\<close>, from \<open>browser.newPage()\<close> to
  \<open>return formattedCookies\<close>. Injecting the existing cookies into the page sits in a
  \<open>try\<close> of its own that swallows every error and touches the page only; what remains of
  it here is the call \<open>this.loadCookies(this.cookiesPath)\<close>.
\<close>

definition page_steps :: "browser \<Rightarrow> manager \<Rightarrow> world \<Rightarrow> (string + cookie list) \<times> manager \<times> world" where
  "page_steps b m w =
     (case newPage_error b of
        Some e \<Rightarrow> (Inl e, m, w)
      | None \<Rightarrow>
     (case setUserAgent_error b of
        Some e \<Rightarrow> (Inl e, m, w)
      | None \<Rightarrow>
     (let m1 = snd (loadCookies m w (JString (cookiesPath m)))
      in (case goto_error b of
            Some e \<Rightarrow> (Inl e, m1, w)
          | None \<Rightarrow>
         (case evaluate b 0 of
            Inl e \<Rightarrow> (Inl e, m1, w)
          | Inr isLoggedIn \<Rightarrow>
         (case (if \<not> isLoggedIn \<and> \<not> headless m1
                then wait_for_login (evaluate b) 1 (login_rounds b) else None) of
            Some e \<Rightarrow> (Inl e, m1, w)
          | None \<Rightarrow>
         (case page_cookies b of
            Inl e \<Rightarrow> (Inl e, m1, w)
          | Inr freshCookies \<Rightarrow>
         (let formattedCookies = map formatCookie freshCookies;
              w1 = snd (saveCookies m1 w formattedCookies)
          in (case invoke_updated m1 w1 formattedCookies of
                (Inl e, w2) \<Rightarrow> (Inl e, m1, w2)
              | (Inr u, w2) \<Rightarrow> (Inr formattedCookies, m1, w2))))))))))"

text \<open>\<open>puppeteer.launch\<close>, the inner \<open>try\<close>, and \<open>browser.close()\<close> in its \<open>finally\<close>.\<close>

definition browser_session :: "browser \<Rightarrow> manager \<Rightarrow> world \<Rightarrow> (string + cookie list) \<times> manager \<times> world" where
  "browser_session b m w =
     (case launch_error b of
        Some e \<Rightarrow> (Inl e, m, w)
      | None \<Rightarrow>
          (case page_steps b m w of
             (r, m1, w1) \<Rightarrow>
               (case close_error b of
                  Some e \<Rightarrow> (Inl e, m1, w1)
                | None \<Rightarrow> (r, m1, w1))))"

text \<open>
  The outer \<open>catch\<close> of \<open>refreshCookies\<close>: report to the callback and return \<open>null\<close>; an
  error raised by the callback leaves \<open>refreshCookies\<close> (\<open>Inl\<close>).
\<close>

definition outer_catch :: "manager \<Rightarrow> world \<Rightarrow> string \<Rightarrow> (string + cookie list option) \<times> manager \<times> world" where
  "outer_catch m w e =
     (case invoke_error m w e of
        (Inl x, w1) \<Rightarrow> (Inl x, m, w1)
      | (Inr u, w1) \<Rightarrow> (Inr None, m, w1))"

text \<open>
  \<open>refreshCookies\<close>. The result is \<open>Inr (Some cookies)\<close> for the fresh cookies,
  \<open>Inr None\<close> for \<open>null\<close>, and \<open>Inl e\<close> when the promise rejects with \<open>e\<close>. The handler of
  the failed \<open>require\<close> sits inside the outer \<open>try\<close>, so an error raised by the callback
  there reaches the outer \<open>catch\<close>.
\<close>

definition refreshCookies :: "browser \<Rightarrow> manager \<Rightarrow> world \<Rightarrow> (string + cookie list option) \<times> manager \<times> world" where
  "refreshCookies b m w =
     (let w0 = w\<lparr>calls := calls w @ [RefreshCookies]\<rparr>
      in if \<not> puppeteer m \<and> \<not> installed b then
           (case invoke_error m w0 ''Puppeteer not installed'' of
              (Inl x, w1) \<Rightarrow> outer_catch m w1 x
            | (Inr u, w1) \<Rightarrow> (Inr None, m, w1))
         else
           (case browser_session b (m\<lparr>puppeteer := True\<rparr>) w0 of
              (Inl e, m1, w1) \<Rightarrow> outer_catch m1 w1 e
            | (Inr cs, m1, w1) \<Rightarrow> (Inr (Some cs), m1, w1)))"

text \<open>
  The callback that \<open>startAutoRefresh\<close> hands to \<open>setInterval\<close>: one tick of the
  scheduler. Its \<open>try\<close> swallows whatever \<open>validateCookies\<close> or \<open>refreshCookies\<close>
  raises.
\<close>

definition tick :: "(int \<Rightarrow> string) \<Rightarrow> browser \<Rightarrow> int \<Rightarrow> manager \<Rightarrow> world \<Rightarrow> manager \<times> world" where
  "tick toISOString b now_ms m w =
     (case loadCookies m w (JString (cookiesPath m)) of
        (cookies, m1) \<Rightarrow>
          (case validateCookies toISOString m1 now_ms cookies of
             Inl e \<Rightarrow> (m1, w)
           | Inr validation \<Rightarrow>
               if \<not> valid validation \<or> expiringSoon validation
               then snd (refreshCookies b m1 w)
               else (m1, w)))"

text \<open>
  \<open>startAutoRefresh\<close> and \<open>stopAutoRefresh\<close>; \<open>h\<close> is the handle \<open>setInterval\<close> returns.
  Ticks happen while \<open>refreshTimer\<close> is set.
\<close>

definition startAutoRefresh :: "nat \<Rightarrow> manager \<Rightarrow> manager" where
  "startAutoRefresh h m =
     (if \<not> autoRefresh m then m
      else if refreshTimer m \<noteq> None then m
      else m\<lparr>refreshTimer := Some h\<rparr>)"

definition stopAutoRefresh :: "manager \<Rightarrow> manager" where
  "stopAutoRefresh m = (if refreshTimer m \<noteq> None then m\<lparr>refreshTimer := None\<rparr> else m)"

text \<open>Sample worlds and browsers for the concrete evaluations below.\<close>

definition empty_world :: world where
  "empty_world = \<lparr> files = (\<lambda>p. None), unreadable = (\<lambda>p. False), unwritable = (\<lambda>p. False), calls = [] \<rparr>"

definition no_browser :: browser where
  "no_browser =
     \<lparr> installed = False, launch_error = None, newPage_error = None,
       setUserAgent_error = None, goto_error = None, evaluate = (\<lambda>k. Inr True),
       login_rounds = 0, page_cookies = Inr [], close_error = None \<rparr>"

text \<open>
  Two relations between the world before and after a piece of \<open>refreshCookies\<close>:
  \<open>quiet\<close>, the calls recorded in between contain no entry of \<open>refreshCookies\<close>; and
  \<open>keeps p\<close>, every file other than \<open>p\<close> is as before and every \<open>saveCookies\<close> in between
  was aimed at \<open>p\<close>.
\<close>

definition quiet :: "world \<Rightarrow> world \<Rightarrow> bool" where
  "quiet w w' = (\<exists>es. calls w' = calls w @ es \<and> RefreshCookies \<notin> set es)"


definition world_with :: "string \<Rightarrow> cookie list \<Rightarrow> world" where
  "world_with p cs =
     \<lparr> files = (\<lambda>q. if q = p then Some (Json (JArray cs)) else None),
       unreadable = (\<lambda>q. False), unwritable = (\<lambda>q. False), calls = [] \<rparr>"

definition one_cookie_browser :: browser where
  "one_cookie_browser =
     \<lparr> installed = True, launch_error = None, newPage_error = None,
       setUserAgent_error = None, goto_error = None, evaluate = (\<lambda>k. Inr True),
       login_rounds = 0,
       page_cookies = Inr [\<lparr> p_name = ''SID'', p_value = ''s'', p_domain = ''.youtube.com'',
                              p_path = ''/'', p_expires = 1800000000, p_httpOnly = True,
                              p_secure = True, p_sameSite = Some Lax \<rparr>],
       close_error = None \<rparr>"

section \<open>The plugin: numbers read from strings\<close>

text \<open>
  \<open>Number(s)\<close> on a string, after ECMAScript's StringToNumber: white space is trimmed at
  both ends, the empty string is 0, then a literal \<open>0x\<close>, \<open>0o\<close> or \<open>0b\<close> with digits of
  its radix, or an optional sign before \<open>Infinity\<close> or a decimal literal (digits, an
  optional fraction, an optional exponent); anything else is \<open>NaN\<close>. The value of the
  literal is rounded to the nearest double.
\<close>

definition digit_of :: "char \<Rightarrow> nat option" where
  "digit_of = map_of
     [(CHR ''0'', 0), (CHR ''1'', 1), (CHR ''2'', 2), (CHR ''3'', 3), (CHR ''4'', 4),
      (CHR ''5'', 5), (CHR ''6'', 6), (CHR ''7'', 7), (CHR ''8'', 8), (CHR ''9'', 9),
      (CHR ''a'', 10), (CHR ''b'', 11), (CHR ''c'', 12), (CHR ''d'', 13), (CHR ''e'', 14),
      (CHR ''f'', 15), (CHR ''A'', 10), (CHR ''B'', 11), (CHR ''C'', 12), (CHR ''D'', 13),
      (CHR ''E'', 14), (CHR ''F'', 15)]"

definition is_digit :: "nat \<Rightarrow> char \<Rightarrow> bool" where
  "is_digit base c = (case digit_of c of None \<Rightarrow> False | Some d \<Rightarrow> d < base)"

definition digits_value :: "nat \<Rightarrow> string \<Rightarrow> nat" where
  "digits_value base s =
     foldl (\<lambda>a c. a * base + (case digit_of c of None \<Rightarrow> 0 | Some d \<Rightarrow> d)) 0 s"

definition trim :: "string \<Rightarrow> string" where
  "trim s = rev (dropWhile is_space (rev (dropWhile is_space s)))"

definition parse_exponent :: "string \<Rightarrow> int option" where
  "parse_exponent s =
     (case s of
        [] \<Rightarrow> Some 0
      | c # t \<Rightarrow>
          if c = CHR ''e'' \<or> c = CHR ''E'' then
            (let neg = (case t of x # u \<Rightarrow> x = CHR ''-'' | [] \<Rightarrow> False);
                 ds = (case t of x # u \<Rightarrow> if x = CHR ''+'' \<or> x = CHR ''-'' then u else t | [] \<Rightarrow> t)
             in if ds \<noteq> [] \<and> list_all (is_digit 10) ds
                then Some (if neg then - int (digits_value 10 ds) else int (digits_value 10 ds))
                else None)
          else None)"

definition parse_decimal :: "string \<Rightarrow> rat option" where
  "parse_decimal s =
     (let ip = takeWhile (is_digit 10) s;
          r1 = dropWhile (is_digit 10) s;
          fp = (case r1 of c # t \<Rightarrow> if c = CHR ''.'' then takeWhile (is_digit 10) t else [] | [] \<Rightarrow> []);
          r2 = (case r1 of c # t \<Rightarrow> if c = CHR ''.'' then dropWhile (is_digit 10) t else r1 | [] \<Rightarrow> [])
      in if ip = [] \<and> fp = [] then None
         else (case parse_exponent r2 of
                 None \<Rightarrow> None
               | Some e \<Rightarrow>
                   (let mantissa = of_nat (digits_value 10 ip) + of_nat (digits_value 10 fp) / 10 ^ length fp
                    in Some (if 0 \<le> e then mantissa * 10 ^ nat e else mantissa / 10 ^ nat (- e)))))"

definition radix_prefix :: "string \<Rightarrow> nat option" where
  "radix_prefix s =
     (case s of
        z # x # t \<Rightarrow>
          if z \<noteq> CHR ''0'' then None
          else if x = CHR ''x'' \<or> x = CHR ''X'' then Some 16
          else if x = CHR ''o'' \<or> x = CHR ''O'' then Some 8
          else if x = CHR ''b'' \<or> x = CHR ''B'' then Some 2
          else None
      | _ \<Rightarrow> None)"

definition Number_of :: "string \<Rightarrow> js_number" where
  "Number_of s =
     (let t = trim s
      in if t = [] then Num 0
         else (case radix_prefix t of
                 Some base \<Rightarrow>
                   if drop 2 t \<noteq> [] \<and> list_all (is_digit base) (drop 2 t)
                   then fl (of_nat (digits_value base (drop 2 t))) else NaN
               | None \<Rightarrow>
                   (let neg = (hd t = CHR ''-'');
                        u = (if hd t = CHR ''+'' \<or> hd t = CHR ''-'' then tl t else t)
                    in if u = ''Infinity'' then (if neg then NegInf else PosInf)
                       else (case parse_decimal u of
                               None \<Rightarrow> NaN
                             | Some v \<Rightarrow> fl (if neg then - v else v)))))"

text \<open>\<open>s.split(c)\<close> for a one-character separator: the empty string gives one empty part.\<close>

fun split_on :: "char \<Rightarrow> string \<Rightarrow> string list" where
  "split_on c [] = [[]]"
| "split_on c (x # xs) =
     (if x = c then [] # split_on c xs
      else (case split_on c xs of p # ps \<Rightarrow> (x # p) # ps | [] \<Rightarrow> [[x]]))"

text \<open>\<open>convertDurationToSeconds\<close> of the plugin, on a string argument.\<close>

definition convertDurationToSeconds :: "string \<Rightarrow> js_number" where
  "convertDurationToSeconds duration =
     (if duration = [] then Num 0
      else (case map Number_of (split_on CHR '':'' duration) of
              [p0, p1] \<Rightarrow> js_add (js_mult p0 (Num 60)) p1
            | [p0, p1, p2] \<Rightarrow> js_add (js_add (js_mult p0 (Num 3600)) (js_mult p1 (Num 60))) p2
            | _ \<Rightarrow> Num 0))"

section \<open>The plugin: tracks, songs and the upstream clients\<close>

text \<open>
  A track as the search API returns it: every field may be missing. \<open>thumbnails\<close> holds
  the \<open>url\<close> of each thumbnail entry and \<open>artists\<close> the \<open>name\<close> of each artist.
\<close>

record track =
  videoId :: "string option"
  title :: "string option"
  thumbnails :: "string list option"
  duration :: "string option"
  artists :: "string list option"

text \<open>The \<open>options\<close> argument of \<open>resolve\<close>: the two fields the plugin reads, as opaque handles.\<close>

record resolve_options =
  member :: "string option"
  metadata :: "string option"

text \<open>
  The object literal handed to \<open>new Song\<close>. \<open>Song\<close> and \<open>Playlist\<close> are classes of the host
  framework: a song or playlist object is a value of a type parameter, and the
  constructor a function that returns it or raises with a message (\<open>Inl\<close>).
\<close>

record song_fields =
  sf_source :: string
  sf_id :: string
  sf_name :: string
  sf_url :: string
  sf_thumbnail :: "string option"
  sf_duration :: js_number
  sf_isLive :: "bool option"
  sf_views :: "js_number option"
  sf_uploader_name :: string
  sf_uploader_url :: "string option"
  sf_playFromSource :: bool
  sf_member :: "string option"
  sf_metadata :: "string option"

record 'song playlist_fields =
  pf_source :: string
  pf_id :: string
  pf_name :: string
  pf_url :: string
  pf_thumbnail :: "string option"
  pf_songs :: "'song list"
  pf_member :: "string option"

record format =
  f_url :: "string option"
  hasAudio :: bool
  hasVideo :: bool

record author =
  a_name :: string
  channel_url :: "string option"

record video_details =
  vd_title :: "string option"
  vd_thumbnails :: "string list"
  lengthSeconds :: "string option"
  isLiveContent :: "bool option"
  viewCount :: "string option"
  vd_author :: "author option"

record video_info =
  videoDetails :: "video_details option"
  formats :: "format list"

record collection_info =
  ci_tracks :: "track option list option"
  ci_title :: "string option"
  ci_thumbnails :: "string list option"

text \<open>The criteria object of \<open>chooseFormat\<close>, and \<open>distube.options.ytdlOptions\<close> spread over it.\<close>

record criteria =
  c_filter :: "string option"
  c_quality :: "string option"

text \<open>
  The clients at the plugin's boundary. A call returns a value (\<open>Inr\<close>; \<open>None\<close> inside it
  is a falsy result) or raises with a message (\<open>Inl\<close>). For \<open>getPlaylist\<close> and \<open>getAlbum\<close>
  the collection's list is its \<open>tracks\<close>, for \<open>getArtist\<close> its \<open>songs\<close> and its title the
  \<open>name\<close>. \<open>getVideoID\<close> gives \<open>None\<close> when it raises.
\<close>

record ('song, 'pl) clients =
  getPlaylist :: "string \<Rightarrow> string + collection_info option"
  getAlbum :: "string \<Rightarrow> string + collection_info option"
  getArtist :: "string \<Rightarrow> string + collection_info option"
  getInfo :: "string \<Rightarrow> string + video_info option"
  validateURL :: "string \<Rightarrow> bool"
  getVideoID :: "string \<Rightarrow> string option"
  chooseFormat :: "format list \<Rightarrow> criteria \<Rightarrow> string + format option"
  new_Song :: "song_fields \<Rightarrow> string + 'song"
  new_Playlist :: "'song playlist_fields \<Rightarrow> string + 'pl"

text \<open>The plugin's options that the modelled methods read, and the host's \<open>ytdlOptions\<close>.\<close>

record plugin =
  parallel :: bool
  maxViews :: int
  ytdlOptions :: criteria

datatype distube_error = InvalidType string | PluginError string

datatype id_type = Video | Playlist | Album | Artist

datatype ('song, 'pl) resolved = ResolvedSong 'song | ResolvedPlaylist 'pl

subsection \<open>Strings\<close>

text \<open>\<open>s.includes(pat)\<close>.\<close>

fun str_includes :: "string \<Rightarrow> string \<Rightarrow> bool" where
  "str_includes [] pat = (pat = [])"
| "str_includes (c # cs) pat = (prefix pat (c # cs) \<or> str_includes cs pat)"

text \<open>
  The first capture group of the leftmost match of a regular expression made of one of
  the literals \<open>lits\<close> followed by \<open>([class]+)\<close>: the longest non-empty run of characters
  of the class after the literal. \<open>None\<close> is a failed match.
\<close>

fun match_run :: "string list \<Rightarrow> (char \<Rightarrow> bool) \<Rightarrow> string \<Rightarrow> string option" where
  "match_run lits ok [] = None"
| "match_run lits ok (c # cs) =
     (case find (\<lambda>l. prefix l (c # cs)) lits of
        Some l \<Rightarrow>
          (let cap = takeWhile ok (drop (length l) (c # cs))
           in if cap \<noteq> [] then Some cap else match_run lits ok cs)
      | None \<Rightarrow> match_run lits ok cs)"

text \<open>\<open>names.join(", ")\<close>.\<close>

fun join_comma :: "string list \<Rightarrow> string" where
  "join_comma [] = []"
| "join_comma [x] = x"
| "join_comma (x # y # ys) = x @ '', '' @ join_comma (y # ys)"

text \<open>
  \<open>parseInt(s)\<close> without a radix: leading white space and a sign are skipped, \<open>0x\<close>
  selects radix 16, and the longest run of digits is read and rounded to a double; no
  digit gives \<open>NaN\<close>.
\<close>

definition parseInt :: "string \<Rightarrow> js_number" where
  "parseInt s =
     (let t = dropWhile is_space s;
          neg = (case t of c # u \<Rightarrow> c = CHR ''-'' | [] \<Rightarrow> False);
          u = (case t of c # u \<Rightarrow> if c = CHR ''+'' \<or> c = CHR ''-'' then u else t | [] \<Rightarrow> t);
          base = (if radix_prefix u = Some 16 then 16 else 10);
          v = (if radix_prefix u = Some 16 then drop 2 u else u);
          ds = takeWhile (is_digit base) v
      in if ds = [] then NaN
         else fl (if neg then - of_nat (digits_value base ds) else of_nat (digits_value base ds)))"

text \<open>\<open>xs.slice(0, k)\<close> for an integer \<open>k\<close>: a negative \<open>k\<close> counts from the end.\<close>

definition slice0 :: "'a list \<Rightarrow> int \<Rightarrow> 'a list" where
  "slice0 xs k = (if k < 0 then take (length xs - nat (- k)) xs else take (nat k) xs)"

subsection \<open>extractId\<close>

definition extractId :: "('song, 'pl) clients \<Rightarrow> string \<Rightarrow> id_type \<times> string option" where
  "extractId cl url =
     (if str_includes url ''/playlist'' \<or> str_includes url ''list='' then
        (Playlist, match_run [''?list='', ''&list=''] (\<lambda>c. c \<noteq> CHR ''&'') url)
      else if str_includes url ''/album/'' then
        (Album, match_run [''/album/''] (\<lambda>c. c \<noteq> CHR ''?'' \<and> c \<noteq> CHR ''/'') url)
      else if str_includes url ''/artist/'' then
        (Artist, match_run [''/artist/''] (\<lambda>c. c \<noteq> CHR ''?'' \<and> c \<noteq> CHR ''/'') url)
      else if str_includes url ''/watch'' \<or> validateURL cl url then
        (Video, getVideoID cl url)
      else (Video, None))"

definition type_name :: "id_type \<Rightarrow> string" where
  "type_name t =
     (case t of Video \<Rightarrow> ''video'' | Playlist \<Rightarrow> ''playlist'' | Album \<Rightarrow> ''album''
      | Artist \<Rightarrow> ''artist'')"

subsection \<open>processPlaylistTracks\<close>

text \<open>\<open>a || b\<close> on an optional string: the empty string is falsy too.\<close>

definition or_else :: "string option \<Rightarrow> string \<Rightarrow> string" where
  "or_else a b = (case a of None \<Rightarrow> b | Some s \<Rightarrow> if s = [] then b else s)"

definition last_thumbnail :: "string list option \<Rightarrow> string option" where
  "last_thumbnail ts =
     (case ts of None \<Rightarrow> None | Some us \<Rightarrow> if length us > 0 then Some (last us) else None)"

text \<open>The object literal that \<open>processTrack\<close> builds for a track with the id \<open>v\<close>.\<close>

definition track_fields :: "resolve_options \<Rightarrow> track \<Rightarrow> string \<Rightarrow> song_fields" where
  "track_fields options t v =
     \<lparr> sf_source = ''youtube-music'',
       sf_id = v,
       sf_name = or_else (title t) ''Unknown Title'',
       sf_url = ''https://music.youtube.com/watch?v='' @ v,
       sf_thumbnail = last_thumbnail (thumbnails t),
       sf_duration = (case duration t of
                        None \<Rightarrow> Num 0
                      | Some d \<Rightarrow> if d = [] then Num 0 else convertDurationToSeconds d),
       sf_isLive = None,
       sf_views = None,
       sf_uploader_name = (case artists t of
                             None \<Rightarrow> ''Unknown Artist''
                           | Some as \<Rightarrow> if length as > 0 then join_comma as else ''Unknown Artist''),
       sf_uploader_url = None,
       sf_playFromSource = True,
       sf_member = member options,
       sf_metadata = metadata options \<rparr>"

text \<open>
  \<open>processTrack\<close>: \<open>None\<close> is its \<open>null\<close>, for a missing track, a missing or empty
  \<open>videoId\<close>, and a constructor that raises (caught and logged).
\<close>

definition processTrack :: "('song, 'pl) clients \<Rightarrow> resolve_options \<Rightarrow> track option \<Rightarrow> 'song option" where
  "processTrack cl options track =
     (case track of
        None \<Rightarrow> None
      | Some t \<Rightarrow>
          (case videoId t of
             None \<Rightarrow> None
           | Some v \<Rightarrow>
               if v = [] then None
               else (case new_Song cl (track_fields options t v) of
                       Inl e \<Rightarrow> None
                     | Inr song \<Rightarrow> Some song)))"

text \<open>
  \<open>processPlaylistTracks\<close>. With \<open>parallel\<close>, \<open>Promise.all\<close> over the mapped tracks gives
  the results in input order and \<open>filter(Boolean)\<close> drops the \<open>null\<close>s; otherwise the loop
  pushes each song that is not \<open>null\<close>. \<open>processTrack\<close> never awaits and never rejects.
\<close>

definition processPlaylistTracks ::
    "plugin \<Rightarrow> ('song, 'pl) clients \<Rightarrow> track option list \<Rightarrow> resolve_options \<Rightarrow> 'song list" where
  "processPlaylistTracks p cl tracks options =
     (if parallel p then
        (let results = map (processTrack cl options) tracks
         in [] @ [song. Some song \<leftarrow> filter (\<lambda>r. r \<noteq> None) results])
      else
        fold (\<lambda>track songs.
                (case processTrack cl options track of
                   Some song \<Rightarrow> songs @ [song]
                 | None \<Rightarrow> songs))
             tracks [])"

subsection \<open>resolve\<close>

text \<open>
  The three collection cases of the \<open>switch\<close> in \<open>resolve\<close>, with the result of the fetch
  as argument: \<open>what\<close> and \<open>whose\<close> are the words of the two messages and \<open>unknown\<close> the
  default name. \<open>Inl\<close> is the message of the error raised inside the \<open>try\<close>.
\<close>

definition resolve_collection ::
    "plugin \<Rightarrow> ('song, 'pl) clients \<Rightarrow> string \<Rightarrow> resolve_options \<Rightarrow> string \<Rightarrow>
     string \<Rightarrow> string \<Rightarrow> string \<Rightarrow> (string + collection_info option) \<Rightarrow> string + 'pl" where
  "resolve_collection p cl url options ident what whose unknown fetched =
     (case fetched of
        Inl e \<Rightarrow> Inl e
      | Inr None \<Rightarrow> Inl (''Could not fetch '' @ what @ '' information'')
      | Inr (Some info) \<Rightarrow>
          (case ci_tracks info of
             None \<Rightarrow> Inl (''Could not fetch '' @ what @ '' information'')
           | Some tracks \<Rightarrow>
               (let limited = slice0 tracks (maxViews p);
                    songs = processPlaylistTracks p cl limited options
                in if length songs = 0 then Inl (''No playable songs found '' @ whose)
                   else new_Playlist cl
                          \<lparr> pf_source = ''youtube-music'',
                            pf_id = ident,
                            pf_name = or_else (ci_title info) unknown,
                            pf_url = url,
                            pf_thumbnail = last_thumbnail (ci_thumbnails info),
                            pf_songs = songs,
                            pf_member = member options \<rparr>)))"

text \<open>\<open>x || 0\<close> on a number: \<open>NaN\<close> and 0 are falsy.\<close>

definition or_zero :: "js_number \<Rightarrow> js_number" where
  "or_zero x = (case x of NaN \<Rightarrow> Num 0 | _ \<Rightarrow> x)"

definition resolve_video ::
    "('song, 'pl) clients \<Rightarrow> resolve_options \<Rightarrow> string \<Rightarrow> string + 'song" where
  "resolve_video cl options ident =
     (case getInfo cl (''https://music.youtube.com/watch?v='' @ ident) of
        Inl e \<Rightarrow> Inl e
      | Inr None \<Rightarrow> Inl ''Failed to get video details''
      | Inr (Some info) \<Rightarrow>
          (case videoDetails info of
             None \<Rightarrow> Inl ''Failed to get video details''
           | Some d \<Rightarrow>
               new_Song cl
                 \<lparr> sf_source = ''youtube-music'',
                   sf_id = ident,
                   sf_name = or_else (vd_title d) ''Unknown Title'',
                   sf_url = ''https://music.youtube.com/watch?v='' @ ident,
                   sf_thumbnail = last_thumbnail (Some (vd_thumbnails d)),
                   sf_duration = or_zero (parseInt (case lengthSeconds d of
                                                      None \<Rightarrow> ''undefined'' | Some s \<Rightarrow> s)),
                   sf_isLive = Some (case isLiveContent d of None \<Rightarrow> False | Some l \<Rightarrow> l),
                   sf_views = Some (parseInt (or_else (viewCount d) ''0'')),
                   sf_uploader_name = (case vd_author d of
                                         None \<Rightarrow> ''Unknown Artist'' | Some a \<Rightarrow> a_name a),
                   sf_uploader_url = (case vd_author d of
                                        None \<Rightarrow> None | Some a \<Rightarrow> channel_url a),
                   sf_playFromSource = True,
                   sf_member = member options,
                   sf_metadata = metadata options \<rparr>))"

text \<open>
  \<open>resolve\<close>: the two checks before the \<open>try\<close>, the \<open>switch\<close> on the type, and the
  \<open>catch\<close> that wraps the message of whatever was raised inside.
\<close>

definition resolve ::
    "plugin \<Rightarrow> ('song, 'pl) clients \<Rightarrow> string \<Rightarrow> resolve_options \<Rightarrow>
     distube_error + ('song, 'pl) resolved" where
  "resolve p cl url options =
     (if url = [] then Inl (InvalidType ''url'')
      else
        (case extractId cl url of
           (type, found) \<Rightarrow>
             (case found of
                None \<Rightarrow> Inl (PluginError ''Could not extract ID from URL'')
              | Some ident \<Rightarrow>
                  if ident = [] then Inl (PluginError ''Could not extract ID from URL'')
                  else
                    (case (case type of
                             Playlist \<Rightarrow>
                               map_sum id ResolvedPlaylist
                                 (resolve_collection p cl url options ident ''playlist''
                                    ''in playlist'' ''Unknown Playlist'' (getPlaylist cl ident))
                           | Album \<Rightarrow>
                               map_sum id ResolvedPlaylist
                                 (resolve_collection p cl url options ident ''album''
                                    ''in album'' ''Unknown Album'' (getAlbum cl ident))
                           | Artist \<Rightarrow>
                               map_sum id ResolvedPlaylist
                                 (resolve_collection p cl url options ident ''artist''
                                    ''for artist'' ''Unknown Artist'' (getArtist cl ident))
                           | Video \<Rightarrow>
                               map_sum id ResolvedSong (resolve_video cl options ident)) of
                       Inl e \<Rightarrow>
                         Inl (PluginError (''Failed to resolve '' @ type_name type @ '': '' @
                                (if e = [] then ''Unknown error'' else e)))
                     | Inr r \<Rightarrow> Inr r))))"

subsection \<open>getStreamURL\<close>

text \<open>
  \<open>getStreamURL\<close>; \<open>song_id\<close> is \<open>song.id\<close>, \<open>None\<close> for a missing song or id. The host has
  called \<open>init\<close>, so \<open>this.distube\<close> is set.
\<close>

definition getStreamURL ::
    "plugin \<Rightarrow> ('song, 'pl) clients \<Rightarrow> string option \<Rightarrow> distube_error + string" where
  "getStreamURL p cl song_id =
     (case song_id of
        None \<Rightarrow> Inl (InvalidType ''Song'')
      | Some ident \<Rightarrow>
          if ident = [] then Inl (InvalidType ''Song'')
          else
            (case (case getInfo cl (''https://music.youtube.com/watch?v='' @ ident) of
                     Inl e \<Rightarrow> Inl e
                   | Inr None \<Rightarrow> Inl (''Cannot read properties of null (reading '' @ [CHR 0x27] @
                                   ''formats'' @ [CHR 0x27] @ '')'')
                   | Inr (Some info) \<Rightarrow>
                       (case chooseFormat cl (formats info)
                               \<lparr> c_filter = (case c_filter (ytdlOptions p) of
                                               None \<Rightarrow> Some ''audioonly'' | Some f \<Rightarrow> Some f),
                                 c_quality = (case c_quality (ytdlOptions p) of
                                                None \<Rightarrow> Some ''highestaudio'' | Some q \<Rightarrow> Some q) \<rparr> of
                          Inl e \<Rightarrow> Inl e
                        | Inr None \<Rightarrow> Inl ''No suitable audio format found''
                        | Inr (Some format) \<Rightarrow>
                            (case f_url format of
                               None \<Rightarrow> Inl ''No suitable audio format found''
                             | Some u \<Rightarrow>
                                 if u = [] then Inl ''No suitable audio format found''
                                 else Inr u))) of
               Inl e \<Rightarrow> Inl (PluginError (if e = [] then ''Failed to get stream URL'' else e))
             | Inr u \<Rightarrow> Inr u))"

subsection \<open>Auxiliary notions and sample clients\<close>

text \<open>
  The track list that the fetch of a collection of the given type and id yields, when
  it succeeds with one.
\<close>

definition upstream_tracks ::
    "('song, 'pl) clients \<Rightarrow> id_type \<Rightarrow> string \<Rightarrow> track option list option" where
  "upstream_tracks cl ty ident =
     (case (case ty of
              Playlist \<Rightarrow> getPlaylist cl ident
            | Album \<Rightarrow> getAlbum cl ident
            | Artist \<Rightarrow> getArtist cl ident
            | Video \<Rightarrow> Inr None) of
        Inr (Some info) \<Rightarrow> ci_tracks info
      | _ \<Rightarrow> None)"

definition audio_only :: "format \<Rightarrow> bool" where
  "audio_only f = (hasAudio f \<and> \<not> hasVideo f)"

definition numbered_track :: "nat \<Rightarrow> track option" where
  "numbered_track n =
     Some \<lparr> videoId = Some (''vid'' @ replicate n CHR ''x''), title = Some ''T'',
            thumbnails = None, duration = Some ''3:45'', artists = Some [''A'', ''B''] \<rparr>"

text \<open>
  Sample clients: every collection has the same \<open>n\<close> tracks, the constructors return
  their argument, and \<open>chooseFormat\<close> behaves as its contract says: it returns the first
  audio-only format and raises when there is none.
\<close>

definition sample_clients :: "nat \<Rightarrow> format list \<Rightarrow> (song_fields, song_fields playlist_fields) clients" where
  "sample_clients n fs =
     \<lparr> getPlaylist = (\<lambda>i. Inr (Some \<lparr> ci_tracks = Some (map numbered_track [0..<n]),
                                        ci_title = Some ''Mix'', ci_thumbnails = None \<rparr>)),
       getAlbum = (\<lambda>i. Inr None),
       getArtist = (\<lambda>i. Inl ''not found''),
       getInfo = (\<lambda>u. Inr (Some \<lparr> videoDetails = None, formats = fs \<rparr>)),
       validateURL = (\<lambda>u. False),
       getVideoID = (\<lambda>u. None),
       chooseFormat = (\<lambda>formats c.
          (case filter audio_only formats of
             [] \<Rightarrow> Inl ''No such format found: highestaudio''
           | f # rest \<Rightarrow> Inr (Some f))),
       new_Song = (\<lambda>fields. Inr fields),
       new_Playlist = (\<lambda>fields. Inr fields) \<rparr>"

definition sample_plugin :: plugin where
  "sample_plugin = \<lparr> parallel = True, maxViews = 10,
                     ytdlOptions = \<lparr> c_filter = None, c_quality = None \<rparr> \<rparr>"

section \<open>Properties of the rounding\<close>

lemma round_half_even_of_int: "round_half_even (of_int z) = z"
  by (simp add: round_half_even_def)

lemma pow2_neg: "pow2 (- int k) = 1 / 2 ^ k"
proof (cases "k = 0")
  case True
  then show ?thesis by (simp add: pow2_def)
next
  case False
  then have "\<not> 0 \<le> - int k" by simp
  then show ?thesis unfolding pow2_def by (simp only: if_False minus_minus nat_int)
qed

text \<open>Every natural number below \<open>2\<close> to the 53 is a double.\<close>

lemma fl_of_nat:
  assumes "n < 2 ^ 53"
  shows "fl (of_nat n) = Num (of_nat n)"
proof (cases "n = 0")
  case True
  then show ?thesis by (simp add: fl_def)
next
  case False
  then have pos: "0 < n" by simp
  have ge1: "(1 :: rat) \<le> of_nat n" using pos by simp
  have b53: "bitlen (int n) \<le> 53" using assms by (simp add: bitlen_le_iff_power)
  have b1: "1 \<le> bitlen (int n)" using pos bitlen_ge_iff_power [of 1 "int n"] by simp
  define e where "e = bitlen (int n) - 1"
  have il: "ilog2 (of_nat n) = e"
    using ge1 by (simp add: ilog2_def e_def)
  define k where "k = nat (52 - e)"
  have e52: "e \<le> 52" "0 \<le> e" using b53 b1 by (simp_all add: e_def)
  have q: "max (e - 52) (- 1074) = - int k" using e52 by (simp add: k_def)
  have d: "of_nat n / pow2 (- int k) = (of_int (int (n * 2 ^ k)) :: rat)"
    by (simp add: pow2_neg)
  have r: "of_int (round_half_even (of_nat n / pow2 (- int k))) * pow2 (- int k) = (of_nat n :: rat)"
    unfolding d round_half_even_of_int by (simp add: pow2_neg)
  have small: "\<not> pow2 1024 \<le> (of_nat n :: rat)"
  proof -
    have "(of_nat n :: rat) < of_nat (2 ^ 53)" using assms by (simp only: of_nat_less_iff)
    also have "\<dots> \<le> 2 ^ 1024" by simp
    finally show ?thesis by (simp add: pow2_def)
  qed
  show ?thesis
    using False pos small by (simp add: fl_def Let_def il q r)
qed

lemma fl_numeral:
  "(numeral k :: nat) < 9007199254740992 \<Longrightarrow> fl (numeral k) = Num (numeral k)"
  using fl_of_nat [of "numeral k"] by simp

lemma js_add_nat:
  "a + b < 2 ^ 53 \<Longrightarrow> js_add (Num (of_nat a)) (Num (of_nat b)) = Num (of_nat (a + b))"
  using fl_of_nat [of "a + b"] by (simp add: js_add_def)

lemma js_mult_nat:
  "a * b < 2 ^ 53 \<Longrightarrow> js_mult (Num (of_nat a)) (Num (of_nat b)) = Num (of_nat (a * b))"
  using fl_of_nat [of "a * b"] by (simp add: js_mult_def)

section \<open>Properties of validateCookies\<close>

lemma fold_scan_expired:
  "fst (fold (scan_cookie now thr) cs s) =
     (fst s \<or> (\<exists>c \<in> set cs. has_expiry c \<and> is_expired now c))"
proof (induction cs arbitrary: s)
  case Nil
  show ?case by simp
next
  case (Cons c cs)
  obtain h e n where s: "s = (h, e, n)" by (cases s)
  show ?case
    unfolding fold_simps Cons.IH
    by (auto simp: s scan_cookie_def has_expiry_def is_expired_def Let_def split: option.splits)
qed



lemma validateCookies_array:
  assumes "cs \<noteq> []"
    and "fold (scan_cookie (now_seconds now_ms) (expirySoonThreshold m now_ms)) cs
           (False, False, None) = (h, e, n)"
  shows "h \<Longrightarrow> validateCookies fmt m now_ms (JArray cs) =
           Inr \<lparr> valid = False, expired = True, expiringSoon = e,
                 nearestExpiry = map_option expiry_date n,
                 message = ''Some cookies have expired'' \<rparr>"
    and "\<not> h \<Longrightarrow> \<not> e \<Longrightarrow> validateCookies fmt m now_ms (JArray cs) =
           Inr \<lparr> valid = True, expired = False, expiringSoon = False,
                 nearestExpiry = map_option expiry_date n,
                 message = ''All cookies are valid'' \<rparr>"
    and "\<not> h \<Longrightarrow> e \<Longrightarrow> n = Some k \<Longrightarrow> expiry_date k = Date t \<Longrightarrow>
         validateCookies fmt m now_ms (JArray cs) =
           Inr \<lparr> valid = True, expired = False, expiringSoon = True,
                 nearestExpiry = Some (Date t),
                 message = ''Cookies expiring soon (before '' @ fmt t @ '')'' \<rparr>"
    and "\<not> h \<Longrightarrow> e \<Longrightarrow> n = Some k \<Longrightarrow> expiry_date k = InvalidDate \<Longrightarrow>
         validateCookies fmt m now_ms (JArray cs) = Inl ''Invalid time value''"
proof -
  obtain c cs' where cs: "cs = c # cs'" using assms(1) by (cases cs) auto
  note f = assms(2) [unfolded cs, simplified]
  show "h \<Longrightarrow> validateCookies fmt m now_ms (JArray cs) =
           Inr \<lparr> valid = False, expired = True, expiringSoon = e,
                 nearestExpiry = map_option expiry_date n,
                 message = ''Some cookies have expired'' \<rparr>"
    unfolding validateCookies_def cs by (simp add: f Let_def)
  show "\<not> h \<Longrightarrow> \<not> e \<Longrightarrow> validateCookies fmt m now_ms (JArray cs) =
           Inr \<lparr> valid = True, expired = False, expiringSoon = False,
                 nearestExpiry = map_option expiry_date n,
                 message = ''All cookies are valid'' \<rparr>"
    unfolding validateCookies_def cs by (simp add: f Let_def)
  show "\<not> h \<Longrightarrow> e \<Longrightarrow> n = Some k \<Longrightarrow> expiry_date k = Date t \<Longrightarrow>
         validateCookies fmt m now_ms (JArray cs) =
           Inr \<lparr> valid = True, expired = False, expiringSoon = True,
                 nearestExpiry = Some (Date t),
                 message = ''Cookies expiring soon (before '' @ fmt t @ '')'' \<rparr>"
    unfolding validateCookies_def cs by (simp add: f Let_def)
  show "\<not> h \<Longrightarrow> e \<Longrightarrow> n = Some k \<Longrightarrow> expiry_date k = InvalidDate \<Longrightarrow>
         validateCookies fmt m now_ms (JArray cs) = Inl ''Invalid time value''"
    unfolding validateCookies_def cs by (simp add: f Let_def)
qed

lemma validateCookies_has_expired:
  assumes "\<exists>c \<in> set cs. has_expiry c \<and> is_expired (now_seconds now_ms) c"
  shows "\<exists>r. validateCookies fmt m now_ms (JArray cs) = Inr r \<and> expired r \<and> \<not> valid r"
proof -
  have ne: "cs \<noteq> []" using assms by auto
  obtain h e n where f: "fold (scan_cookie (now_seconds now_ms) (expirySoonThreshold m now_ms)) cs
           (False, False, None) = (h, e, n)"
    by (cases "fold (scan_cookie (now_seconds now_ms) (expirySoonThreshold m now_ms)) cs
           (False, False, None)")
  have h: "h"
    using fold_scan_expired [of "now_seconds now_ms" "expirySoonThreshold m now_ms" cs
        "(False, False, None)"] f assms by simp
  show ?thesis
    using validateCookies_array(1) [OF ne f h, of fmt] by simp
qed


text \<open>
  With a lead of 300 ms the threshold is not the exact sum: it is the double nearest to
  it, and a date equal to that double is not below it.
\<close>

lemma expirySoonThreshold_rounds:
  "expirySoonThreshold (default_manager\<lparr>refreshBeforeExpiry := 300\<rparr>) 1700000000000 =
     Num (7130316801258291 / 4194304)"
  by code_simp

text \<open>
  C1, as stated: a cookie whose \<open>expirationDate\<close> is strictly before the current time makes
  \<open>validateCookies\<close> report \<open>expired = true\<close> and \<open>valid = false\<close>. The truthiness guard
  of the loop skips a cookie whose \<open>expirationDate\<close> is the number 0, although 0 is before
  every current time after the epoch: such a set is reported valid.
\<close>

theorem validateCookies_zero_expiry_counterexample:
  "expirationDate (plain_cookie ''SID'' (Some 0)) = Some 0 \<and>
   (0 :: rat) < of_int (1700000000000 div 1000) \<and>
   validateCookies (\<lambda>t. ''date'') default_manager 1700000000000
       (JArray [plain_cookie ''SID'' (Some 0)]) =
     Inr \<lparr> valid = True, expired = False, expiringSoon = False, nearestExpiry = None,
           message = ''All cookies are valid'' \<rparr>"
  by (simp add: validateCookies_def scan_cookie_def plain_cookie_def)

text \<open>
  C1, amended: for every array of cookies containing at least one cookie whose
  \<open>expirationDate\<close> is present, is not 0 and is strictly before the current time (in
  seconds, rounded down), \<open>validateCookies\<close> returns \<open>expired = true\<close> and \<open>valid = false\<close>,
  whatever the other cookies are.
\<close>

theorem validateCookies_expired:
  assumes "c \<in> set cs"
    and "expirationDate c = Some d"
    and "d \<noteq> 0"
    and "d < of_int (now_ms div 1000)"
  shows "\<exists>r. validateCookies fmt m now_ms (JArray cs) = Inr r \<and> expired r \<and> \<not> valid r"
proof -
  have "has_expiry c \<and> is_expired (now_seconds now_ms) c"
    using assms(2-4) by (simp add: has_expiry_def is_expired_def now_seconds_def)
  then have "\<exists>c \<in> set cs. has_expiry c \<and> is_expired (now_seconds now_ms) c"
    using assms(1) by blast
  then show ?thesis
    by (rule validateCookies_has_expired)
qed

theorem validateCookies_expired_witness:
  "plain_cookie ''SID'' (Some 1600000000) \<in>
     set [plain_cookie ''A'' None, plain_cookie ''SID'' (Some 1600000000),
          plain_cookie ''B'' (Some 1800000000)] \<and>
   expirationDate (plain_cookie ''SID'' (Some 1600000000)) = Some 1600000000 \<and>
   (1600000000 :: rat) \<noteq> 0 \<and>
   (1600000000 :: rat) < of_int (1700000000000 div 1000) \<and>
   validateCookies (\<lambda>t. ''date'') default_manager 1700000000000
     (JArray [plain_cookie ''A'' None, plain_cookie ''SID'' (Some 1600000000),
              plain_cookie ''B'' (Some 1800000000)]) =
     Inr \<lparr> valid = False, expired = True, expiringSoon = False,
           nearestExpiry = Some (Date 1600000000000),
           message = ''Some cookies have expired'' \<rparr>"
  using validateCookies_expired [of "plain_cookie ''SID'' (Some 1600000000)"
      "[plain_cookie ''A'' None, plain_cookie ''SID'' (Some 1600000000),
        plain_cookie ''B'' (Some 1800000000)]"
      1600000000 1700000000000 "\<lambda>t. ''date''" default_manager]
  by (simp add: validateCookies_def scan_cookie_def plain_cookie_def default_manager_def
      now_seconds_def expirySoonThreshold_def expiry_date_def new_Date_def js_add_def
      js_mult_def js_less_def fl_numeral)




text \<open>
  C3, as stated: \<open>validateCookies\<close> on an empty array returns the message
  \<open>No credentials provided\<close>. The message of the code is \<open>No cookies provided\<close>.
\<close>

theorem validateCookies_empty_message_counterexample:
  "validateCookies (\<lambda>t. ''date'') default_manager 1700000000000 (JArray []) =
     Inr \<lparr> valid = False, expired = False, expiringSoon = False, nearestExpiry = None,
           message = ''No cookies provided'' \<rparr> \<and>
   validateCookies (\<lambda>t. ''date'') default_manager 1700000000000 JNull =
     Inr \<lparr> valid = False, expired = False, expiringSoon = False, nearestExpiry = None,
           message = ''No cookies provided'' \<rparr> \<and>
   ''No cookies provided'' \<noteq> ''No credentials provided''"
  by (simp add: validateCookies_def)

text \<open>
  C3, amended: \<open>validateCookies\<close> applied to an empty array, to \<open>null\<close>, or to any other
  value that is not an array returns a result with \<open>valid = false\<close> and the message
  \<open>No cookies provided\<close> (and \<open>expired = false\<close>, \<open>expiringSoon = false\<close>); it is a plain
  return, no branch of it raises.
\<close>

theorem validateCookies_no_cookies:
  "validateCookies fmt m now_ms (JArray []) =
     Inr \<lparr> valid = False, expired = False, expiringSoon = False, nearestExpiry = None,
           message = ''No cookies provided'' \<rparr> \<and>
   validateCookies fmt m now_ms JNull =
     Inr \<lparr> valid = False, expired = False, expiringSoon = False, nearestExpiry = None,
           message = ''No cookies provided'' \<rparr> \<and>
   validateCookies fmt m now_ms JUndefined =
     Inr \<lparr> valid = False, expired = False, expiringSoon = False, nearestExpiry = None,
           message = ''No cookies provided'' \<rparr> \<and>
   validateCookies fmt m now_ms (JString s) =
     Inr \<lparr> valid = False, expired = False, expiringSoon = False, nearestExpiry = None,
           message = ''No cookies provided'' \<rparr> \<and>
   validateCookies fmt m now_ms JOther =
     Inr \<lparr> valid = False, expired = False, expiringSoon = False, nearestExpiry = None,
           message = ''No cookies provided'' \<rparr>"
  by (simp add: validateCookies_def)

theorem validateCookies_no_cookies_witness:
  "validateCookies (\<lambda>t. ''date'') default_manager 1700000000000 (JArray []) =
     Inr \<lparr> valid = False, expired = False, expiringSoon = False, nearestExpiry = None,
           message = ''No cookies provided'' \<rparr> \<and>
   validateCookies (\<lambda>t. ''date'') default_manager 1700000000000 JNull =
     Inr \<lparr> valid = False, expired = False, expiringSoon = False, nearestExpiry = None,
           message = ''No cookies provided'' \<rparr>"
  using validateCookies_no_cookies [of "\<lambda>t. ''date''" default_manager 1700000000000 "''x''"]
  by simp

section \<open>Properties of the refresh, the scheduler tick and loadCookies\<close>

lemma quiet_refl: "quiet w w" by (simp add: quiet_def)

lemma quiet_trans: "quiet w w1 \<Longrightarrow> quiet w1 w2 \<Longrightarrow> quiet w w2"
  by (auto simp: quiet_def)

lemma quiet_invoke_error: "quiet w (snd (invoke_error m w e))"
  by (auto simp: quiet_def invoke_error_def Let_def split: option.splits callback.splits)

lemma quiet_invoke_updated: "quiet w (snd (invoke_updated m w cs))"
  by (auto simp: quiet_def invoke_updated_def Let_def split: option.splits callback.splits)

lemma quiet_saveCookies: "quiet w (snd (saveCookies m w cs))"
  by (auto simp: quiet_def saveCookies_def Let_def)

lemma quiet_outer_catch: "quiet w (snd (snd (outer_catch m w e)))"
  using quiet_invoke_error [of w m e]
  by (auto simp: outer_catch_def split: prod.splits sum.splits)

lemma quiet_page_steps: "quiet w (snd (snd (page_steps b m w)))"
proof -
  have "quiet w (snd (invoke_updated m' (snd (saveCookies m' w cs)) cs))" for m' cs
    using quiet_trans [OF quiet_saveCookies quiet_invoke_updated] .
  then show ?thesis
    by (auto simp: page_steps_def Let_def quiet_refl split: option.splits sum.splits prod.splits)
       (metis snd_conv)+
qed

lemma quiet_browser_session: "quiet w (snd (snd (browser_session b m w)))"
  using quiet_page_steps [of w b m]
  by (auto simp: browser_session_def quiet_refl split: option.splits prod.splits)

lemma refreshCookies_calls:
  "\<exists>es. calls (snd (snd (refreshCookies b m w))) = calls w @ RefreshCookies # es \<and> RefreshCookies \<notin> set es"
proof -
  define w0 where "w0 = w\<lparr>calls := calls w @ [RefreshCookies]\<rparr>"
  have "quiet w0 (snd (snd (refreshCookies b m w)))"
  proof (cases "\<not> puppeteer m \<and> \<not> installed b")
    case True
    have a: "quiet w0 (snd (invoke_error m w0 ''Puppeteer not installed''))" by (rule quiet_invoke_error)
    show ?thesis
      using a quiet_trans [OF a quiet_outer_catch] True
      by (auto simp: refreshCookies_def Let_def w0_def [symmetric] split: prod.splits sum.splits)
  next
    case False
    have a: "quiet w0 (snd (snd (browser_session b (m\<lparr>puppeteer := True\<rparr>) w0)))" by (rule quiet_browser_session)
    show ?thesis
      using a quiet_trans [OF a quiet_outer_catch] False
      by (auto simp: refreshCookies_def Let_def w0_def [symmetric] split: prod.splits sum.splits)
  qed
  then show ?thesis by (auto simp: quiet_def w0_def)
qed

lemma loadCookies_manager:
  "snd (loadCookies m w source) = (case source of JString p \<Rightarrow> m\<lparr>cookiesPath := p\<rparr> | _ \<Rightarrow> m)"
  by (simp add: loadCookies_def Let_def split: js_value.splits option.splits file_content.splits)

lemma loadCookies_own_path: "snd (loadCookies m w (JString (cookiesPath m))) = m"
  by (simp add: loadCookies_manager)














text \<open>
  C4, as stated: with Puppeteer unavailable, \<open>refreshCookies\<close> returns \<open>null\<close>, invokes the
  registered \<open>onRefreshError\<close> exactly once and never raises. A registered callback that
  itself raises is invoked a second time by the outer \<open>catch\<close>, and its second error
  rejects the promise of \<open>refreshCookies\<close>.
\<close>

theorem refreshCookies_throwing_callback_counterexample:
  "\<not> puppeteer (default_manager\<lparr>onRefreshError := Some (Throws ''boom'')\<rparr>) \<and>
   \<not> installed no_browser \<and>
   fst (refreshCookies no_browser (default_manager\<lparr>onRefreshError := Some (Throws ''boom'')\<rparr>)
          empty_world) = Inl ''boom'' \<and>
   calls (snd (snd (refreshCookies no_browser
          (default_manager\<lparr>onRefreshError := Some (Throws ''boom'')\<rparr>) empty_world))) =
     [RefreshCookies, OnRefreshError ''Puppeteer not installed'', OnRefreshError ''boom'']"
  by (simp add: refreshCookies_def invoke_error_def outer_catch_def default_manager_def
      no_browser_def empty_world_def)

text \<open>
  C4, amended: when Puppeteer is unavailable (not loaded yet, and \<open>require\<close> fails) and the
  registered \<open>onRefreshError\<close> callback returns normally, \<open>refreshCookies\<close> returns \<open>null\<close>
  without raising, invokes that callback exactly once (with \<open>Puppeteer not installed\<close>),
  never calls \<open>saveCookies\<close>, and leaves every file and the manager as they were.
\<close>

theorem refreshCookies_without_puppeteer:
  assumes "\<not> puppeteer m"
    and "\<not> installed b"
    and "onRefreshError m = Some Returns"
  shows "refreshCookies b m w =
     (Inr None, m,
      w\<lparr>calls := calls w @ [RefreshCookies, OnRefreshError ''Puppeteer not installed'']\<rparr>)"
  using assms by (simp add: refreshCookies_def invoke_error_def Let_def)

theorem refreshCookies_without_puppeteer_witness:
  "\<not> puppeteer (default_manager\<lparr>onRefreshError := Some Returns\<rparr>) \<and>
   \<not> installed no_browser \<and>
   onRefreshError (default_manager\<lparr>onRefreshError := Some Returns\<rparr>) = Some Returns \<and>
   fst (refreshCookies no_browser (default_manager\<lparr>onRefreshError := Some Returns\<rparr>)
          (world_with ''cookies.json'' [])) = Inr None \<and>
   calls (snd (snd (refreshCookies no_browser (default_manager\<lparr>onRefreshError := Some Returns\<rparr>)
          (world_with ''cookies.json'' [])))) =
     [RefreshCookies, OnRefreshError ''Puppeteer not installed''] \<and>
   files (snd (snd (refreshCookies no_browser (default_manager\<lparr>onRefreshError := Some Returns\<rparr>)
          (world_with ''cookies.json'' [])))) = files (world_with ''cookies.json'' [])"
  using refreshCookies_without_puppeteer [of "default_manager\<lparr>onRefreshError := Some Returns\<rparr>"
      no_browser "world_with ''cookies.json'' []"]
  by (simp add: default_manager_def no_browser_def world_with_def)

text \<open>
  C5: a tick of the scheduler loads the cookies from \<open>cookiesPath\<close>, validates them, and
  enters \<open>refreshCookies\<close> exactly once if the validation says \<open>!valid || expiringSoon\<close>
  and not at all otherwise; in the second case the tick leaves the world as it was. When
  \<open>validateCookies\<close> raises there is no validation, and no refresh either.
\<close>

theorem tick_refreshes_iff_needed:
  "count_list (calls (snd (tick fmt b now_ms m w))) RefreshCookies =
     count_list (calls w) RefreshCookies +
       (case validateCookies fmt m now_ms (fst (loadCookies m w (JString (cookiesPath m)))) of
          Inr v \<Rightarrow> if \<not> valid v \<or> expiringSoon v then 1 else 0
        | Inl e \<Rightarrow> 0) \<and>
   ((\<exists>v. validateCookies fmt m now_ms (fst (loadCookies m w (JString (cookiesPath m)))) = Inr v \<and>
         valid v \<and> \<not> expiringSoon v)
      \<longrightarrow> tick fmt b now_ms m w = (m, w))"
proof -
  obtain cookies m1 where l: "loadCookies m w (JString (cookiesPath m)) = (cookies, m1)"
    by (cases "loadCookies m w (JString (cookiesPath m))")
  have m1: "m1 = m" using loadCookies_own_path [of m w] l by simp
  obtain es where es: "calls (snd (snd (refreshCookies b m w))) = calls w @ RefreshCookies # es"
      "RefreshCookies \<notin> set es"
    using refreshCookies_calls [of b m w] by blast
  have "count_list es RefreshCookies = 0" using es(2) by (simp add: count_list_0_iff)
  then have "count_list (calls (snd (snd (refreshCookies b m w)))) RefreshCookies =
     count_list (calls w) RefreshCookies + 1"
    by (simp add: es(1))
  then show ?thesis
    by (cases "validateCookies fmt m now_ms cookies") (auto simp: tick_def l m1)
qed

theorem tick_refreshes_iff_needed_witness:
  "calls (snd (tick (\<lambda>t. ''date'') one_cookie_browser 1700000000000 default_manager
      (world_with ''cookies.json'' [plain_cookie ''SID'' (Some 1800000000)]))) = [] \<and>
   count_list (calls (snd (tick (\<lambda>t. ''date'') one_cookie_browser 1700000000000 default_manager
      (world_with ''cookies.json'' [plain_cookie ''SID'' (Some 1700001800)])))) RefreshCookies = 1 \<and>
   count_list (calls (snd (tick (\<lambda>t. ''date'') one_cookie_browser 1700000000000 default_manager
      (world_with ''cookies.json'' [plain_cookie ''SID'' (Some 1600000000)])))) RefreshCookies = 1"
  using tick_refreshes_iff_needed [of "\<lambda>t. ''date''" one_cookie_browser 1700000000000 default_manager
      "world_with ''cookies.json'' [plain_cookie ''SID'' (Some 1800000000)]"]
    tick_refreshes_iff_needed [of "\<lambda>t. ''date''" one_cookie_browser 1700000000000 default_manager
      "world_with ''cookies.json'' [plain_cookie ''SID'' (Some 1700001800)]"]
    tick_refreshes_iff_needed [of "\<lambda>t. ''date''" one_cookie_browser 1700000000000 default_manager
      "world_with ''cookies.json'' [plain_cookie ''SID'' (Some 1600000000)]"]
  by (simp add: loadCookies_def validateCookies_def scan_cookie_def default_manager_def
      world_with_def plain_cookie_def now_seconds_def expirySoonThreshold_def expiry_date_def
      new_Date_def js_add_def js_mult_def js_less_def fl_numeral)



section \<open>Properties of convertDurationToSeconds\<close>

lemma is_digit_10_iff: "is_digit 10 c = (c \<in> set ''0123456789'')"
  by (auto simp: is_digit_def digit_of_def split: if_splits)

lemma digit_not_space: "is_digit 10 c \<Longrightarrow> \<not> is_space c"
  by (auto simp: is_digit_10_iff is_space_def)

lemma trim_digits:
  assumes "list_all (is_digit 10) s"
  shows "trim s = s"
proof (cases s rule: rev_cases)
  case Nil
  then show ?thesis by (simp add: trim_def)
next
  case (snoc ys y)
  have y: "\<not> is_space y" using assms snoc by (simp add: digit_not_space)
  have "dropWhile is_space s = s"
    using assms by (cases s) (auto simp: digit_not_space)
  then show ?thesis
    using y snoc by (simp add: trim_def)
qed

lemma radix_prefix_digits:
  assumes "list_all (is_digit 10) s"
  shows "radix_prefix s = None"
  using assms
  by (auto simp: radix_prefix_def is_digit_10_iff split: list.splits)

lemma parse_decimal_digits:
  assumes "list_all (is_digit 10) s" and "s \<noteq> []"
  shows "parse_decimal s = Some (of_nat (digits_value 10 s))"
proof -
  have t: "takeWhile (is_digit 10) s = s"
    using assms(1) by (simp add: list_all_iff)
  have d: "dropWhile (is_digit 10) s = []"
    using assms(1) by (simp add: list_all_iff)
  show ?thesis
    using assms(2) by (simp add: parse_decimal_def t d parse_exponent_def digits_value_def)
qed

lemma Number_of_digits:
  assumes "list_all (is_digit 10) s" and "s \<noteq> []"
  shows "Number_of s = fl (of_nat (digits_value 10 s))"
proof -
  obtain c t where s: "s = c # t" using assms(2) by (cases s) auto
  have c: "c \<in> set ''0123456789''" using assms(1) s by (simp add: is_digit_10_iff)
  then have sign: "hd s \<noteq> CHR ''+''" "hd s \<noteq> CHR ''-''" and inf: "s \<noteq> ''Infinity''"
    using s by auto
  show ?thesis
    using assms sign inf
    by (simp add: Number_of_def trim_digits radix_prefix_digits parse_decimal_digits)
qed

lemma split_on_no_sep: "c \<notin> set s \<Longrightarrow> split_on c s = [s]"
  by (induction s) auto

lemma split_on_append: "c \<notin> set a \<Longrightarrow> split_on c (a @ c # b) = a # split_on c b"
  by (induction a) auto

lemma split_on_length: "length (split_on c s) = Suc (count_list s c)"
  by (induction s) (auto split: list.splits)

lemma colon_not_digit: "\<not> is_digit 10 CHR '':''"
  by (simp add: is_digit_def digit_of_def)

lemma digits_no_colon: "list_all (is_digit 10) s \<Longrightarrow> CHR '':'' \<notin> set s"
  using colon_not_digit by (induction s) auto

lemma Number_of_small:
  assumes "list_all (is_digit 10) s" and "s \<noteq> []" and "digits_value 10 s < 2 ^ 53"
  shows "Number_of s = Num (of_nat (digits_value 10 s))"
  using assms by (simp add: Number_of_digits fl_of_nat)

lemma convertDurationToSeconds_two:
  assumes "list_all (is_digit 10) mm" "mm \<noteq> []" "list_all (is_digit 10) ss" "ss \<noteq> []"
    and "digits_value 10 mm * 60 + digits_value 10 ss < 2 ^ 53"
  shows "convertDurationToSeconds (mm @ '':'' @ ss) =
           Num (of_nat (digits_value 10 mm * 60 + digits_value 10 ss))"
proof -
  define a where "a = digits_value 10 mm"
  define b where "b = digits_value 10 ss"
  have bound: "a * 60 + b < 2 ^ 53" using assms(5) by (simp add: a_def b_def)
  have sp: "split_on CHR '':'' (mm @ '':'' @ ss) = [mm, ss]"
    using assms by (simp add: split_on_append split_on_no_sep digits_no_colon)
  have na: "Number_of mm = Num (of_nat a)"
    using assms(1,2) bound by (simp add: Number_of_small a_def)
  have nb: "Number_of ss = Num (of_nat b)"
    using assms(3,4) bound by (simp add: Number_of_small b_def)
  have m: "js_mult (Num (of_nat a)) (Num 60) = Num (of_nat (a * 60))"
    using js_mult_nat [of a 60] bound by simp
  have s: "js_add (Num (of_nat (a * 60))) (Num (of_nat b)) = Num (of_nat (a * 60 + b))"
    using js_add_nat [of "a * 60" b] bound by simp
  have "convertDurationToSeconds (mm @ '':'' @ ss) =
          js_add (js_mult (Number_of mm) (Num 60)) (Number_of ss)"
    using sp assms(2) by (simp add: convertDurationToSeconds_def)
  then have "convertDurationToSeconds (mm @ '':'' @ ss) = Num (of_nat (a * 60 + b))"
    by (simp only: na nb m s)
  then show ?thesis
    by (simp only: a_def b_def)
qed

lemma convertDurationToSeconds_three:
  assumes "list_all (is_digit 10) hh" "hh \<noteq> []" "list_all (is_digit 10) mm" "mm \<noteq> []"
     "list_all (is_digit 10) ss" "ss \<noteq> []"
    and "digits_value 10 hh * 3600 + digits_value 10 mm * 60 + digits_value 10 ss < 2 ^ 53"
  shows "convertDurationToSeconds (hh @ '':'' @ mm @ '':'' @ ss) =
           Num (of_nat (digits_value 10 hh * 3600 + digits_value 10 mm * 60 + digits_value 10 ss))"
proof -
  define a where "a = digits_value 10 hh"
  define b where "b = digits_value 10 mm"
  define c where "c = digits_value 10 ss"
  have bound: "a * 3600 + b * 60 + c < 2 ^ 53" using assms(7) by (simp add: a_def b_def c_def)
  have sp: "split_on CHR '':'' (hh @ '':'' @ mm @ '':'' @ ss) = [hh, mm, ss]"
    using assms by (simp add: split_on_append split_on_no_sep digits_no_colon)
  have na: "Number_of hh = Num (of_nat a)"
    using assms(1,2) bound by (simp add: Number_of_small a_def)
  have nb: "Number_of mm = Num (of_nat b)"
    using assms(3,4) bound by (simp add: Number_of_small b_def)
  have nc: "Number_of ss = Num (of_nat c)"
    using assms(5,6) bound by (simp add: Number_of_small c_def)
  have m1: "js_mult (Num (of_nat a)) (Num 3600) = Num (of_nat (a * 3600))"
    using js_mult_nat [of a 3600] bound by simp
  have m2: "js_mult (Num (of_nat b)) (Num 60) = Num (of_nat (b * 60))"
    using js_mult_nat [of b 60] bound by simp
  have s1: "js_add (Num (of_nat (a * 3600))) (Num (of_nat (b * 60))) =
              Num (of_nat (a * 3600 + b * 60))"
    using js_add_nat [of "a * 3600" "b * 60"] bound by simp
  have s2: "js_add (Num (of_nat (a * 3600 + b * 60))) (Num (of_nat c)) =
              Num (of_nat (a * 3600 + b * 60 + c))"
    using js_add_nat [of "a * 3600 + b * 60" c] bound by simp
  have "convertDurationToSeconds (hh @ '':'' @ mm @ '':'' @ ss) =
          js_add (js_add (js_mult (Number_of hh) (Num 3600)) (js_mult (Number_of mm) (Num 60)))
                 (Number_of ss)"
    using sp assms(2) by (simp add: convertDurationToSeconds_def)
  then have "convertDurationToSeconds (hh @ '':'' @ mm @ '':'' @ ss) =
          Num (of_nat (a * 3600 + b * 60 + c))"
    by (simp only: na nb nc m1 m2 s1 s2)
  then show ?thesis
    by (simp only: a_def b_def c_def)
qed

lemma convertDurationToSeconds_other:
  assumes "count_list s CHR '':'' \<noteq> 1" "count_list s CHR '':'' \<noteq> 2"
  shows "convertDurationToSeconds s = Num 0"
proof -
  have "length (map Number_of (split_on CHR '':'' s)) \<noteq> 2"
       "length (map Number_of (split_on CHR '':'' s)) \<noteq> 3"
    using assms by (simp_all add: split_on_length)
  then show ?thesis
    by (auto simp: convertDurationToSeconds_def split: list.splits)
qed

text \<open>
  Beyond \<open>2\<close> to the 53 a run of digits is read as the nearest double, ties to even.
\<close>

lemma fl_ties_to_even: "fl 9007199254740993 = Num 9007199254740992"
  by code_simp

lemma Number_of_rounds: "Number_of ''9007199254740993'' = Num 9007199254740992"
proof -
  have d: "list_all (is_digit 10) ''9007199254740993''"
    by (simp add: is_digit_def digit_of_def)
  have v: "digits_value 10 ''9007199254740993'' = 9007199254740993"
    by (simp add: digits_value_def digit_of_def)
  show ?thesis
    using Number_of_digits [OF d] by (simp add: v fl_ties_to_even)
qed

text \<open>
  C6, as stated: every input that is not of the shape \<open>MM:SS\<close> or \<open>HH:MM:SS\<close> yields 0.
  The string \<open>a:b\<close> has two parts, neither of them a number of minutes or seconds, and
  yields \<open>NaN\<close>: the parts go through \<open>Number\<close> unchecked.
\<close>

theorem convertDurationToSeconds_nan_counterexample:
  "split_on CHR '':'' ''a:b'' = [''a'', ''b''] \<and>
   Number_of ''a'' = NaN \<and>
   convertDurationToSeconds ''a:b'' = NaN \<and>
   convertDurationToSeconds ''a:b'' \<noteq> Num 0"
  by (simp add: convertDurationToSeconds_def Number_of_def trim_def is_space_def
      radix_prefix_def parse_decimal_def parse_exponent_def is_digit_def digit_of_def
      digits_value_def js_add_def js_mult_def)

text \<open>
  C6, amended: \<open>convertDurationToSeconds\<close> maps every string \<open>MM:SS\<close> of two non-empty
  runs of decimal digits to minutes * 60 + seconds, and every string \<open>HH:MM:SS\<close> of three
  such runs to hours * 3600 + minutes * 60 + seconds, whenever that total is below
  \<open>2\<close> to the 53, the range in which every whole number is a double (\<open>3:45\<close> yields 225,
  \<open>1:02:03\<close> yields 3723); it returns 0 for the empty string and for every input whose
  number of colon-separated parts is neither two nor three (\<open>garbage\<close> yields 0). An input
  of two or three parts is computed in double arithmetic from \<open>Number\<close> of each part,
  whatever the parts are.
\<close>

theorem convertDurationToSeconds_shapes:
  "(list_all (is_digit 10) mm \<and> mm \<noteq> [] \<and> list_all (is_digit 10) ss \<and> ss \<noteq> [] \<and>
    digits_value 10 mm * 60 + digits_value 10 ss < 2 ^ 53 \<longrightarrow>
      convertDurationToSeconds (mm @ '':'' @ ss) =
        Num (of_nat (digits_value 10 mm * 60 + digits_value 10 ss))) \<and>
   (list_all (is_digit 10) hh \<and> hh \<noteq> [] \<and> list_all (is_digit 10) mm \<and> mm \<noteq> [] \<and>
    list_all (is_digit 10) ss \<and> ss \<noteq> [] \<and>
    digits_value 10 hh * 3600 + digits_value 10 mm * 60 + digits_value 10 ss < 2 ^ 53 \<longrightarrow>
      convertDurationToSeconds (hh @ '':'' @ mm @ '':'' @ ss) =
        Num (of_nat (digits_value 10 hh * 3600 + digits_value 10 mm * 60 + digits_value 10 ss))) \<and>
   (length (split_on CHR '':'' s) \<noteq> 2 \<and> length (split_on CHR '':'' s) \<noteq> 3 \<longrightarrow>
      convertDurationToSeconds s = Num 0) \<and>
   (length (split_on CHR '':'' s) = 2 \<longrightarrow> s \<noteq> [] \<and>
      convertDurationToSeconds s =
        js_add (js_mult (Number_of (split_on CHR '':'' s ! 0)) (Num 60))
               (Number_of (split_on CHR '':'' s ! 1))) \<and>
   (length (split_on CHR '':'' s) = 3 \<longrightarrow> s \<noteq> [] \<and>
      convertDurationToSeconds s =
        js_add (js_add (js_mult (Number_of (split_on CHR '':'' s ! 0)) (Num 3600))
                       (js_mult (Number_of (split_on CHR '':'' s ! 1)) (Num 60)))
               (Number_of (split_on CHR '':'' s ! 2))) \<and>
   convertDurationToSeconds [] = Num 0"
proof -
  have two: "length (split_on CHR '':'' s) = 2 \<longrightarrow> s \<noteq> [] \<and>
      convertDurationToSeconds s =
        js_add (js_mult (Number_of (split_on CHR '':'' s ! 0)) (Num 60))
               (Number_of (split_on CHR '':'' s ! 1))"
  proof
    assume l: "length (split_on CHR '':'' s) = 2"
    then obtain a b where ab: "split_on CHR '':'' s = [a, b]"
      by (auto simp: length_Suc_conv numeral_2_eq_2)
    have ne: "s \<noteq> []" using l by auto
    show "s \<noteq> [] \<and> convertDurationToSeconds s =
        js_add (js_mult (Number_of (split_on CHR '':'' s ! 0)) (Num 60))
               (Number_of (split_on CHR '':'' s ! 1))"
      using ne by (simp add: convertDurationToSeconds_def ab)
  qed
  have three: "length (split_on CHR '':'' s) = 3 \<longrightarrow> s \<noteq> [] \<and>
      convertDurationToSeconds s =
        js_add (js_add (js_mult (Number_of (split_on CHR '':'' s ! 0)) (Num 3600))
                       (js_mult (Number_of (split_on CHR '':'' s ! 1)) (Num 60)))
               (Number_of (split_on CHR '':'' s ! 2))"
  proof
    assume l: "length (split_on CHR '':'' s) = 3"
    then obtain a b c where abc: "split_on CHR '':'' s = [a, b, c]"
      by (auto simp: length_Suc_conv numeral_3_eq_3)
    have ne: "s \<noteq> []" using l by auto
    show "s \<noteq> [] \<and> convertDurationToSeconds s =
        js_add (js_add (js_mult (Number_of (split_on CHR '':'' s ! 0)) (Num 3600))
                       (js_mult (Number_of (split_on CHR '':'' s ! 1)) (Num 60)))
               (Number_of (split_on CHR '':'' s ! 2))"
      using ne by (simp add: convertDurationToSeconds_def abc)
  qed
  have other: "length (split_on CHR '':'' s) \<noteq> 2 \<and> length (split_on CHR '':'' s) \<noteq> 3 \<longrightarrow>
      convertDurationToSeconds s = Num 0"
    using convertDurationToSeconds_other [of s] by (simp add: split_on_length)
  have empty: "convertDurationToSeconds [] = Num 0"
    by (simp add: convertDurationToSeconds_def)
  show ?thesis
    using convertDurationToSeconds_two [of mm ss] convertDurationToSeconds_three [of hh mm ss]
      two three other empty
    by blast
qed

theorem convertDurationToSeconds_shapes_witness:
  "convertDurationToSeconds ''3:45'' = Num 225 \<and>
   convertDurationToSeconds ''1:02:03'' = Num 3723 \<and>
   convertDurationToSeconds ''garbage'' = Num 0 \<and>
   convertDurationToSeconds [] = Num 0"
proof -
  have d: "list_all (is_digit 10) ''3''" "list_all (is_digit 10) ''45''"
    "list_all (is_digit 10) ''1''" "list_all (is_digit 10) ''02''" "list_all (is_digit 10) ''03''"
    by (simp_all add: is_digit_def digit_of_def)
  have v: "digits_value 10 ''3'' = 3" "digits_value 10 ''45'' = 45" "digits_value 10 ''1'' = 1"
    "digits_value 10 ''02'' = 2" "digits_value 10 ''03'' = 3"
    by (simp_all add: digits_value_def digit_of_def)
  have g: "length (split_on CHR '':'' ''garbage'') = 1"
    by simp
  show ?thesis
    using convertDurationToSeconds_shapes [of "''3''" "''45''" "''1''" "''garbage''"]
      convertDurationToSeconds_shapes [of "''02''" "''03''" "''1''" "''garbage''"]
      d v g
    by simp
qed

section \<open>Properties of the plugin\<close>

lemma fold_push:
  "fold (\<lambda>track songs. (case f track of Some song \<Rightarrow> songs @ [song] | None \<Rightarrow> songs)) tracks acc =
     acc @ List.map_filter f tracks"
  by (induction tracks arbitrary: acc) (auto simp: List.map_filter_simps split: option.splits)

lemma filter_Boolean:
  "[song. Some song \<leftarrow> filter (\<lambda>r. r \<noteq> None) (map f tracks)] = List.map_filter f tracks"
  by (induction tracks) (auto simp: List.map_filter_simps split: option.splits)

lemma processPlaylistTracks_map_filter:
  "processPlaylistTracks p cl tracks options = List.map_filter (processTrack cl options) tracks"
proof (cases "parallel p")
  case True
  then show ?thesis
    unfolding processPlaylistTracks_def
    by (simp only: if_True Let_def append_Nil filter_Boolean)
next
  case False
  then show ?thesis
    by (simp add: processPlaylistTracks_def fold_push)
qed

lemma map_sum_Inr: "map_sum f g x = Inr r \<Longrightarrow> \<exists>y. x = Inr y \<and> r = g y"
  by (cases x) auto

lemma length_processPlaylistTracks:
  "length (processPlaylistTracks p cl tracks options) \<le> length tracks"
  unfolding processPlaylistTracks_map_filter map_filter_def
  by (simp add: le_trans [OF length_filter_le])

lemma processTrack_None:
  "(processTrack cl options track = None) =
     (track = None \<or>
      (\<exists>t. track = Some t \<and>
         (videoId t = None \<or> videoId t = Some [] \<or>
          (\<exists>v e. videoId t = Some v \<and> new_Song cl (track_fields options t v) = Inl e))))"
  by (auto simp: processTrack_def split: option.splits sum.splits)

lemma slice0_nonneg: "0 \<le> k \<Longrightarrow> slice0 xs k = take (nat k) xs"
  by (simp add: slice0_def)

lemma resolve_collection_Inr:
  assumes "0 \<le> maxViews p"
    and "resolve_collection p cl url options ident what whose unknown fetched = Inr pl"
  shows "\<exists>info tracks fields.
           fetched = Inr (Some info) \<and> ci_tracks info = Some tracks \<and>
           new_Playlist cl fields = Inr pl \<and>
           pf_songs fields = processPlaylistTracks p cl (take (nat (maxViews p)) tracks) options"
  using assms
  by (auto simp: resolve_collection_def Let_def slice0_nonneg
           split: sum.splits option.splits if_splits)

text \<open>
  C7: when \<open>resolve\<close> of a playlist, album or artist identifier returns a collection, the
  upstream track list was cut to its first \<open>maxViews\<close> entries before conversion: the
  songs of the collection are the conversions of that prefix, so at most \<open>maxViews\<close>
  tracks are converted and the collection has at most \<open>maxViews\<close> songs. \<open>maxViews\<close> is a
  count, not negative.
\<close>
theorem resolve_caps_collection:
  assumes "0 \<le> maxViews p"
    and "extractId cl url = (ty, Some ident)"
    and "ty \<noteq> Video"
    and "resolve p cl url options = Inr r"
  shows "\<exists>tracks fields pl.
           upstream_tracks cl ty ident = Some tracks \<and>
           r = ResolvedPlaylist pl \<and>
           new_Playlist cl fields = Inr pl \<and>
           pf_songs fields = processPlaylistTracks p cl (take (nat (maxViews p)) tracks) options \<and>
           length (take (nat (maxViews p)) tracks) \<le> nat (maxViews p) \<and>
           length (pf_songs fields) \<le> nat (maxViews p)"
proof -
  define what where "what = (case ty of Playlist \<Rightarrow> ''playlist'' | Album \<Rightarrow> ''album'' | _ \<Rightarrow> ''artist'')"
  define whose where "whose = (case ty of Playlist \<Rightarrow> ''in playlist'' | Album \<Rightarrow> ''in album'' | _ \<Rightarrow> ''for artist'')"
  define unknown where "unknown = (case ty of Playlist \<Rightarrow> ''Unknown Playlist'' | Album \<Rightarrow> ''Unknown Album'' | _ \<Rightarrow> ''Unknown Artist'')"
  define fetched where "fetched = (case ty of Playlist \<Rightarrow> getPlaylist cl ident | Album \<Rightarrow> getAlbum cl ident | _ \<Rightarrow> getArtist cl ident)"
  have "\<exists>pl. r = ResolvedPlaylist pl \<and>
          resolve_collection p cl url options ident what whose unknown fetched = Inr pl"
    using assms(2-4)
    by (cases ty)
       (auto simp: resolve_def what_def whose_def unknown_def fetched_def
             split: if_splits sum.splits dest!: map_sum_Inr)
  then obtain pl where r: "r = ResolvedPlaylist pl"
    and rc: "resolve_collection p cl url options ident what whose unknown fetched = Inr pl"
    by blast
  obtain info tracks fields where f: "fetched = Inr (Some info)" "ci_tracks info = Some tracks"
      "new_Playlist cl fields = Inr pl"
      "pf_songs fields = processPlaylistTracks p cl (take (nat (maxViews p)) tracks) options"
    using resolve_collection_Inr [OF assms(1) rc] by blast
  have up: "upstream_tracks cl ty ident = Some tracks"
    using f(1,2) assms(3) by (cases ty) (auto simp: upstream_tracks_def fetched_def)
  have "length (pf_songs fields) \<le> length (take (nat (maxViews p)) tracks)"
    unfolding f(4) by (rule length_processPlaylistTracks)
  then have "length (pf_songs fields) \<le> nat (maxViews p)" by simp
  then show ?thesis using up r f(3,4) by auto
qed

theorem resolve_caps_collection_witness:
  "(0 :: int) \<le> maxViews sample_plugin \<and>
   extractId (sample_clients 15 []) ''/playlist?list=PL1'' = (Playlist, Some ''PL1'') \<and>
   map_option length (upstream_tracks (sample_clients 15 []) Playlist ''PL1'') = Some 15 \<and>
   (case resolve sample_plugin (sample_clients 15 []) ''/playlist?list=PL1''
           \<lparr>member = None, metadata = None\<rparr> of
      Inr (ResolvedPlaylist pl) \<Rightarrow> length (pf_songs pl) \<le> 10
    | _ \<Rightarrow> False)"
proof -
  have h1: "(0 :: int) \<le> maxViews sample_plugin"
    by (simp add: sample_plugin_def)
  have h2: "extractId (sample_clients 15 []) ''/playlist?list=PL1'' = (Playlist, Some ''PL1'')"
    by (simp add: extractId_def)
  have up: "map_option length (upstream_tracks (sample_clients 15 []) Playlist ''PL1'') = Some 15"
    by (simp add: upstream_tracks_def sample_clients_def)
  have "\<exists>r. resolve sample_plugin (sample_clients 15 []) ''/playlist?list=PL1''
           \<lparr>member = None, metadata = None\<rparr> = Inr r"
    unfolding resolve_def h2
    by (simp add: resolve_collection_def sample_clients_def sample_plugin_def
        slice0_def processPlaylistTracks_map_filter List.map_filter_simps processTrack_def
        numbered_track_def upt_rec [of _ "numeral _"] Let_def)
  then obtain r where r: "resolve sample_plugin (sample_clients 15 []) ''/playlist?list=PL1''
           \<lparr>member = None, metadata = None\<rparr> = Inr r"
    by blast
  have "\<exists>tracks fields pl.
           upstream_tracks (sample_clients 15 []) Playlist ''PL1'' = Some tracks \<and>
           r = ResolvedPlaylist pl \<and>
           new_Playlist (sample_clients 15 []) fields = Inr pl \<and>
           pf_songs fields = processPlaylistTracks sample_plugin (sample_clients 15 [])
              (take (nat (maxViews sample_plugin)) tracks) \<lparr>member = None, metadata = None\<rparr> \<and>
           length (take (nat (maxViews sample_plugin)) tracks) \<le> nat (maxViews sample_plugin) \<and>
           length (pf_songs fields) \<le> nat (maxViews sample_plugin)"
    using resolve_caps_collection [OF h1 h2 _ r] by simp
  then obtain fields pl where "r = ResolvedPlaylist pl"
      "new_Playlist (sample_clients 15 []) fields = Inr pl"
      "length (pf_songs fields) \<le> nat (maxViews sample_plugin)"
    by blast
  then have "r = ResolvedPlaylist pl \<and> length (pf_songs pl) \<le> 10"
    by (auto simp: sample_clients_def sample_plugin_def)
  then show ?thesis
    using h1 h2 up r by simp
qed

text \<open>
  C8: for every track list and options, \<open>processPlaylistTracks\<close> gives the same list of
  songs with \<open>parallel\<close> set and unset: the songs of the tracks that convert, in the
  order of the input. A track does not convert exactly when it is missing, has no
  \<open>videoId\<close> (or an empty one), or the \<open>Song\<close> constructor raises.
\<close>

theorem processPlaylistTracks_modes_agree:
  "processPlaylistTracks (p\<lparr>parallel := True\<rparr>) cl tracks options =
     processPlaylistTracks (p\<lparr>parallel := False\<rparr>) cl tracks options \<and>
   processPlaylistTracks p cl tracks options =
     List.map_filter (processTrack cl options) tracks \<and>
   (processTrack cl options track = None) =
     (track = None \<or>
      (\<exists>t. track = Some t \<and>
         (videoId t = None \<or> videoId t = Some [] \<or>
          (\<exists>v e. videoId t = Some v \<and> new_Song cl (track_fields options t v) = Inl e))))"
  using processTrack_None [of cl options track]
  by (simp add: processPlaylistTracks_map_filter)

theorem processPlaylistTracks_modes_agree_witness:
  "processPlaylistTracks (sample_plugin\<lparr>parallel := True\<rparr>) (sample_clients 0 [])
       [numbered_track 0, None, numbered_track 1] \<lparr>member = None, metadata = None\<rparr> =
     processPlaylistTracks (sample_plugin\<lparr>parallel := False\<rparr>) (sample_clients 0 [])
       [numbered_track 0, None, numbered_track 1] \<lparr>member = None, metadata = None\<rparr> \<and>
   map sf_id (processPlaylistTracks (sample_plugin\<lparr>parallel := False\<rparr>) (sample_clients 0 [])
       [numbered_track 0, None, numbered_track 1] \<lparr>member = None, metadata = None\<rparr>) =
     [''vid'', ''vidx'']"
proof -
  have "map sf_id (processPlaylistTracks (sample_plugin\<lparr>parallel := False\<rparr>) (sample_clients 0 [])
       [numbered_track 0, None, numbered_track 1] \<lparr>member = None, metadata = None\<rparr>) =
     [''vid'', ''vidx'']"
    by (simp add: processPlaylistTracks_def processTrack_def numbered_track_def
        sample_clients_def sample_plugin_def track_fields_def)
  then show ?thesis
    using processPlaylistTracks_modes_agree [of sample_plugin "sample_clients 0 []"
        "[numbered_track 0, None, numbered_track 1]" "\<lparr>member = None, metadata = None\<rparr>" None]
    by simp
qed

text \<open>
  C9, as stated: with no audio-only entry in the format list, and \<open>chooseFormat\<close> raising
  when no format matches, the error of \<open>getStreamURL\<close> contains
  \<open>No suitable audio format found\<close>. The error carries the message \<open>chooseFormat\<close> raised
  with instead: its raise skips the plugin's own check of the returned format.
\<close>

theorem getStreamURL_upstream_message_counterexample:
  "filter audio_only [\<lparr>f_url = Some ''u'', hasAudio = True, hasVideo = True\<rparr>] = [] \<and>
   chooseFormat (sample_clients 1 [\<lparr>f_url = Some ''u'', hasAudio = True, hasVideo = True\<rparr>])
       [\<lparr>f_url = Some ''u'', hasAudio = True, hasVideo = True\<rparr>]
       \<lparr>c_filter = Some ''audioonly'', c_quality = Some ''highestaudio''\<rparr> =
     Inl ''No such format found: highestaudio'' \<and>
   getStreamURL sample_plugin
       (sample_clients 1 [\<lparr>f_url = Some ''u'', hasAudio = True, hasVideo = True\<rparr>])
       (Some ''abc'') =
     Inl (PluginError ''No such format found: highestaudio'') \<and>
   \<not> str_includes ''No such format found: highestaudio'' ''No suitable audio format found''"
  by (simp add: getStreamURL_def sample_clients_def sample_plugin_def audio_only_def)

text \<open>
  C9, amended: for a song with an id whose stream info is fetched, when \<open>chooseFormat\<close>
  raises (as its contract says it does when no format matches) \<open>getStreamURL\<close> fails with
  a plugin error that carries the message \<open>chooseFormat\<close> raised with, or
  \<open>Failed to get stream URL\<close> if that message is empty; it fails with
  \<open>No suitable audio format found\<close> when \<open>chooseFormat\<close> returns no format or a format
  without a url.
\<close>

theorem getStreamURL_no_format:
  assumes "getInfo cl (''https://music.youtube.com/watch?v='' @ ident) = Inr (Some info)"
    and "ident \<noteq> []"
    and "chooseFormat cl (formats info)
           \<lparr> c_filter = (case c_filter (ytdlOptions p) of None \<Rightarrow> Some ''audioonly'' | Some f \<Rightarrow> Some f),
             c_quality = (case c_quality (ytdlOptions p) of None \<Rightarrow> Some ''highestaudio'' | Some q \<Rightarrow> Some q) \<rparr> = res"
  shows "(\<forall>e. res = Inl e \<longrightarrow>
            getStreamURL p cl (Some ident) =
              Inl (PluginError (if e = [] then ''Failed to get stream URL'' else e))) \<and>
         (res = Inr None \<or> (\<exists>f. res = Inr (Some f) \<and> (f_url f = None \<or> f_url f = Some [])) \<longrightarrow>
            getStreamURL p cl (Some ident) = Inl (PluginError ''No suitable audio format found''))"
  using assms by (auto simp: getStreamURL_def)

theorem getStreamURL_no_format_witness:
  "getInfo (sample_clients 1 []) (''https://music.youtube.com/watch?v='' @ ''abc'') =
     Inr (Some \<lparr>videoDetails = None, formats = []\<rparr>) \<and>
   getStreamURL sample_plugin (sample_clients 1 []) (Some ''abc'') =
     Inl (PluginError ''No such format found: highestaudio'') \<and>
   getStreamURL sample_plugin ((sample_clients 1 [])\<lparr>chooseFormat := \<lambda>fs c. Inr None\<rparr>) (Some ''abc'') =
     Inl (PluginError ''No suitable audio format found'')"
proof -
  have a: "getInfo (sample_clients 1 []) (''https://music.youtube.com/watch?v='' @ ''abc'') =
     Inr (Some \<lparr>videoDetails = None, formats = []\<rparr>)"
    by (simp add: sample_clients_def)
  have b: "getInfo ((sample_clients 1 [])\<lparr>chooseFormat := \<lambda>fs c. Inr None\<rparr>)
       (''https://music.youtube.com/watch?v='' @ ''abc'') =
     Inr (Some \<lparr>videoDetails = None, formats = []\<rparr>)"
    by (simp add: sample_clients_def)
  have ne: "''abc'' \<noteq> []" by simp
  show ?thesis
    using a getStreamURL_no_format [OF a ne refl, of sample_plugin]
      getStreamURL_no_format [OF b ne refl, of sample_plugin]
    by (simp add: sample_clients_def sample_plugin_def)
qed

end
